theory Spec2Isabelle
  imports Main "HOL-Library.Word"
begin

section \<open>Shapes, errors and Python sequences\<close>

text \<open>
  A shape is a Python tuple whose entries are integers or \<open>None\<close>. Python integers are
  unbounded, so a dimension is an \<open>int option\<close>.
\<close>

type_synonym dim = "int option"
type_synonym shape = "dim list"

text \<open>
  Every \<open>raise ValueError(...)\<close> of the layers is one constructor of \<open>value_error\<close>,
  named after its message; the other constructors of \<open>error\<close> are the exceptions the
  Python runtime raises by itself.
\<close>

datatype value_error =
    Tuple_argument
  | Padding_argument
  | Data_format_argument
  | Stride_must_be_greater_than_output_padding
  | Inputs_should_have_rank
  | Channel_dimension_undefined
  | Should_have_n_elements
  | Should_be_int_or_tuple
  | Interpolation_argument
  | Only_one_unknown_dimension
  | Total_size_must_be_unchanged
  | Input_not_fully_defined
  | Values_to_unpack

datatype error = ValueError value_error | IndexError | TypeError | ZeroDivisionError

datatype padding_mode = VALID | SAME | CAUSAL

datatype data_layout = channels_first | channels_last

text \<open>\<open>xs[i]\<close>: a negative index counts from the end, an index out of range raises.\<close>

definition getitem :: "'a list \<Rightarrow> int \<Rightarrow> error + 'a" where
  "getitem xs i =
     (if 0 \<le> i then (if nat i < length xs then Inr (xs ! nat i) else Inl IndexError)
      else (if nat (- i) \<le> length xs then Inr (xs ! (length xs - nat (- i)))
            else Inl IndexError))"

text \<open>\<open>xs[i] = v\<close> for \<open>i \<ge> 0\<close> on a list.\<close>

definition setitem :: "'a list \<Rightarrow> nat \<Rightarrow> 'a \<Rightarrow> error + 'a list" where
  "setitem xs i v = (if i < length xs then Inr (xs[i := v]) else Inl IndexError)"

text \<open>Sequencing: the first exception raised ends the computation.\<close>

definition and_then :: "error + 'a \<Rightarrow> ('a \<Rightarrow> error + 'b) \<Rightarrow> error + 'b" where
  "and_then r f = (case r of Inl e \<Rightarrow> Inl e | Inr v \<Rightarrow> f v)"

text \<open>\<open>a, b = xs\<close> and \<open>a, b, c = xs\<close>: a sequence of another length raises.\<close>

lemma and_then_cong [fundef_cong]:
  "r = r' \<Longrightarrow> (\<And>v. r' = Inr v \<Longrightarrow> f v = f' v) \<Longrightarrow> and_then r f = and_then r' f'"
  by (simp add: and_then_def split: sum.splits)

fun unpack2 :: "'a list \<Rightarrow> error + 'a \<times> 'a" where
  "unpack2 [a, b] = Inr (a, b)"
| "unpack2 _ = Inl (ValueError Values_to_unpack)"

fun unpack3 :: "'a list \<Rightarrow> error + 'a \<times> 'a \<times> 'a" where
  "unpack3 [a, b, c] = Inr (a, b, c)"
| "unpack3 _ = Inl (ValueError Values_to_unpack)"

text \<open>
  An argument that Python accepts either as one integer or as a sequence of integers
  (\<open>kernel_size=3\<close> or \<open>kernel_size=(3, 3)\<close>).
\<close>

datatype tuple_arg = IntArg int | SeqArg "int list"

section \<open>The helpers of \<open>conv_utils\<close>, \<open>generic_utils\<close> and the backend\<close>

text \<open>
  Modelled from the spec: \<open>conv_utils.normalize_tuple\<close> is imported by
  \<open>convolutional.py\<close> and its source is not part of the files at hand. Section 4.1:
  a single integer is broadcast to a tuple of length \<open>rank\<close>; a sequence must have
  length \<open>rank\<close> (its elements are integers by type here), else a configuration error.
\<close>

definition normalize_tuple :: "tuple_arg \<Rightarrow> nat \<Rightarrow> error + int list" where
  "normalize_tuple v n =
     (case v of
        IntArg k \<Rightarrow> Inr (replicate n k)
      | SeqArg ks \<Rightarrow> if length ks = n then Inr ks else Inl (ValueError Tuple_argument))"

definition lower_char :: "char \<Rightarrow> char" where
  "lower_char c =
     (let n = (of_char c :: nat) in if 65 \<le> n \<and> n \<le> 90 then char_of (n + 32) else c)"

text \<open>
  Modelled from the spec: \<open>conv_utils.normalize_padding\<close> (source absent). Section
  4.1: the strings "valid", "same" and "causal" are mapped case-insensitively to the
  padding mode, anything else is a configuration error.
\<close>

definition normalize_padding :: "string \<Rightarrow> error + padding_mode" where
  "normalize_padding v =
     (let p = map lower_char v in
      if p = ''valid'' then Inr VALID
      else if p = ''same'' then Inr SAME
      else if p = ''causal'' then Inr CAUSAL
      else Inl (ValueError Padding_argument))"

text \<open>
  Modelled from the spec: \<open>K.normalize_data_format\<close> (source absent). Section 4.1:
  "channels_first" and "channels_last" are mapped to the layout, an unset argument falls
  back to the process-wide default (\<open>image_data_format\<close>, the first parameter here),
  anything else fails.
\<close>

definition normalize_data_format :: "data_layout \<Rightarrow> string option \<Rightarrow> error + data_layout" where
  "normalize_data_format image_data_format v =
     (case v of
        None \<Rightarrow> Inr image_data_format
      | Some s \<Rightarrow>
          if s = ''channels_first'' then Inr channels_first
          else if s = ''channels_last'' then Inr channels_last
          else Inl (ValueError Data_format_argument))"

text \<open>
  Modelled from the spec: \<open>conv_utils.conv_output_length\<close> (source absent). Section
  4.2: an unknown input size stays unknown; the dilated kernel extent is
  \<open>kernel_size + (kernel_size - 1) * (dilation - 1)\<close>; VALID gives
  \<open>floor((input_size - dilated_kernel) / stride) + 1\<close>, SAME and CAUSAL give
  \<open>ceil(input_size / stride)\<close>; the result is clamped to be non-negative. A stride of
  zero is the division by zero Python raises.
\<close>

definition conv_output_length :: "dim \<Rightarrow> int \<Rightarrow> padding_mode \<Rightarrow> int \<Rightarrow> int \<Rightarrow> error + dim" where
  "conv_output_length input_size kernel_size padding stride dilation =
     (case input_size of
        None \<Rightarrow> Inr None
      | Some n \<Rightarrow>
          let dilated_kernel = kernel_size + (kernel_size - 1) * (dilation - 1) in
          if stride = 0 then Inl ZeroDivisionError
          else if padding = VALID
          then Inr (Some (max 0 ((n - dilated_kernel) div stride + 1)))
          else Inr (Some (max 0 (- ((- n) div stride)))))"

text \<open>
  Modelled from the spec: \<open>conv_utils.deconv_length\<close> (source absent). Section 4.2:
  an unknown input size stays unknown; without output padding VALID gives
  \<open>input_size * stride + max(dilated_kernel - stride, 0)\<close> and SAME gives
  \<open>input_size * stride\<close>; with an explicit output padding the length is
  \<open>(input_size - 1) * stride + dilated_kernel - 2 * pad + output_padding\<close>, where
  \<open>pad\<close> is 0 for VALID and \<open>dilated_kernel // 2\<close> for SAME. The function does not
  compare the output padding with the stride. The spec gives no length for CAUSAL, which
  is a failure here.
\<close>

definition deconv_length ::
  "dim \<Rightarrow> int \<Rightarrow> int \<Rightarrow> padding_mode \<Rightarrow> int option \<Rightarrow> int \<Rightarrow> error + dim" where
  "deconv_length input_size stride kernel_size padding output_padding dilation =
     (case input_size of
        None \<Rightarrow> Inr None
      | Some n \<Rightarrow>
          let dilated_kernel = kernel_size + (kernel_size - 1) * (dilation - 1) in
          if padding = CAUSAL then Inl (ValueError Padding_argument)
          else (case output_padding of
                  None \<Rightarrow>
                    if padding = VALID
                    then Inr (Some (n * stride + max (dilated_kernel - stride) 0))
                    else Inr (Some (n * stride))
                | Some out_pad \<Rightarrow>
                    let pad = (if padding = VALID then 0 else dilated_kernel div 2)
                    in Inr (Some ((n - 1) * stride + dilated_kernel - 2 * pad + out_pad))))"

text \<open>\<open>tuple(shape[x] for x in spatial_axes)\<close>.\<close>

fun getitems :: "'a list \<Rightarrow> nat list \<Rightarrow> error + 'a list" where
  "getitems xs [] = Inr []"
| "getitems xs (a # as) =
     and_then (getitem xs (int a)) (\<lambda>v. and_then (getitems xs as) (\<lambda>vs. Inr (v # vs)))"

text \<open>
  Modelled from the spec: \<open>generic_utils.transpose_shape\<close> (source absent). Section
  4.3: shapes are computed in the canonical order (batch, spatial..., channel) and then
  permuted into the configured layout by a shared helper: channel-first puts the
  channel entry right after the entries before the first spatial axis, followed by the
  spatial entries; channel-last leaves the sequence as it is.
\<close>

definition transpose_shape :: "'a list \<Rightarrow> data_layout \<Rightarrow> nat list \<Rightarrow> error + 'a list" where
  "transpose_shape shape' target_format spatial_axes =
     (if target_format = channels_first then
        and_then (getitem spatial_axes 0) (\<lambda>first_axis.
        and_then (getitem shape' (- 1)) (\<lambda>c.
        and_then (getitems shape' spatial_axes) (\<lambda>sp.
          Inr (take first_axis shape' @ [c] @ sp))))
      else Inr shape')"

text \<open>The values of numpy's \<open>int64\<close>.\<close>

definition int64 :: "int \<Rightarrow> bool" where
  "int64 k = (- (2 ^ 63) \<le> k \<and> k < 2 ^ 63)"

text \<open>
  \<open>np.prod\<close> of a tuple of Python integers that all fit \<open>int64\<close>: numpy makes an
  \<open>int64\<close> array of the tuple and multiplies in that type, wrapping around silently,
  with and without \<open>dtype=int\<close>. For a tuple with an entry that does not fit, what
  numpy does depends on the call and on numpy's version (an \<open>OverflowError\<close>, an
  unsigned, a floating-point or an exact product): this is not modelled, and the result
  here is \<open>None\<close>.
\<close>

definition np_prod :: "int list \<Rightarrow> int option" where
  "np_prod xs =
     (if list_all int64 xs then Some (sint (word_of_int (prod_list xs) :: 64 word)) else None)"

section \<open>The layer objects\<close>

text \<open>
  \<open>Layer\<close>, the base class: \<open>weights\<close> is the list of the parameters requested from
  the backend so far, each with its name and shape, in the order of the requests.
\<close>

record layer =
  weights :: "(string \<times> shape) list"
  built :: bool

text \<open>
  Modelled from the spec: \<open>Layer.add_weight\<close> (source absent). Section 6:
  \<open>allocate_parameter(shape, initializer, name)\<close> is the one side effect of
  \<open>build\<close>; the tensor it returns is represented by its shape.
\<close>

definition add_weight :: "string \<Rightarrow> shape \<Rightarrow> 'a layer_scheme \<Rightarrow> shape \<times> 'a layer_scheme" where
  "add_weight name shp self = (shp, self\<lparr>weights := weights self @ [(name, shp)]\<rparr>)"

record input_spec =
  ndim :: nat
  axes :: "(int \<times> int) list"

text \<open>
  Every layer class of \<open>convolutional.py\<close> sets \<open>self.rank\<close>,
  \<open>self.data_format\<close> and \<open>self.input_spec\<close> in its constructor; the three
  attributes are shared here.
\<close>

record spatial_layer = layer +
  rank :: nat
  data_format :: data_layout
  input_spec :: input_spec

text \<open>
  \<open>_Conv\<close> and its subclasses \<open>Conv1D\<close>, \<open>Conv2D\<close>, \<open>Conv3D\<close>. \<open>filters\<close> is an
  \<open>int option\<close> because \<open>DepthwiseConv2D\<close> passes \<open>filters=None\<close>; \<open>kernel\<close> and
  \<open>bias\<close> are \<open>None\<close> until \<open>build\<close> assigns them.
\<close>

record conv_layer = spatial_layer +
  filters :: "int option"
  kernel_size :: "int list"
  strides :: "int list"
  padding :: padding_mode
  dilation_rate :: "int list"
  use_bias :: bool
  kernel :: "shape option"
  bias :: "shape option"

subsection \<open>\<open>_Conv.__init__\<close>, \<open>Conv2D.__init__\<close>, \<open>Conv3D.__init__\<close>\<close>

definition Conv_init ::
  "data_layout \<Rightarrow> nat \<Rightarrow> int option \<Rightarrow> tuple_arg \<Rightarrow> tuple_arg \<Rightarrow> string \<Rightarrow> string option
     \<Rightarrow> tuple_arg \<Rightarrow> bool \<Rightarrow> error + conv_layer" where
  "Conv_init image_data_format rank' filters' kernel_size' strides' padding' data_format'
       dilation_rate' use_bias' =
     and_then (normalize_tuple kernel_size' rank') (\<lambda>ks.
     and_then (normalize_tuple strides' rank') (\<lambda>ss.
     and_then (normalize_padding padding') (\<lambda>p.
     and_then (normalize_data_format image_data_format data_format') (\<lambda>df.
     and_then (normalize_tuple dilation_rate' rank') (\<lambda>dr.
       Inr \<lparr> weights = [], built = False, rank = rank', data_format = df,
             input_spec = \<lparr> ndim = rank' + 2, axes = [] \<rparr>,
             filters = filters', kernel_size = ks, strides = ss,
             padding = p, dilation_rate = dr, use_bias = use_bias',
             kernel = None, bias = None \<rparr>)))))"

definition Conv2D_init ::
  "data_layout \<Rightarrow> int option \<Rightarrow> tuple_arg \<Rightarrow> tuple_arg \<Rightarrow> string \<Rightarrow> string option
     \<Rightarrow> tuple_arg \<Rightarrow> bool \<Rightarrow> error + conv_layer" where
  "Conv2D_init image_data_format filters' kernel_size' strides' padding' data_format'
       dilation_rate' use_bias' =
     Conv_init image_data_format 2 filters' kernel_size' strides' padding' data_format'
       dilation_rate' use_bias'"

definition Conv3D_init ::
  "data_layout \<Rightarrow> int option \<Rightarrow> tuple_arg \<Rightarrow> tuple_arg \<Rightarrow> string \<Rightarrow> string option
     \<Rightarrow> tuple_arg \<Rightarrow> bool \<Rightarrow> error + conv_layer" where
  "Conv3D_init image_data_format filters' kernel_size' strides' padding' data_format'
       dilation_rate' use_bias' =
     Conv_init image_data_format 3 filters' kernel_size' strides' padding' data_format'
       dilation_rate' use_bias'"

subsection \<open>\<open>_Conv.build\<close>\<close>

text \<open>
  \<open>build\<close> mutates the layer, and an exception leaves the object as it was when the
  exception was raised: the result is the exception, if any, and the object afterwards.
\<close>

definition Conv_build :: "'a conv_layer_scheme \<Rightarrow> shape \<Rightarrow> error option \<times> 'a conv_layer_scheme" where
  "Conv_build self input_shape =
     (let channel_axis = (if data_format self = channels_first then 1 else - 1) in
      case getitem input_shape channel_axis of
        Inl e \<Rightarrow> (Some e, self)
      | Inr None \<Rightarrow> (Some (ValueError Channel_dimension_undefined), self)
      | Inr (Some input_dim) \<Rightarrow>
          let kernel_shape = map Some (kernel_size self) @ [Some input_dim, filters self];
              (k, self) = add_weight ''kernel'' kernel_shape self;
              self = self\<lparr>kernel := Some k\<rparr>;
              self = (if use_bias self
                      then (let (b, self) = add_weight ''bias'' [filters self] self
                            in self\<lparr>bias := Some b\<rparr>)
                      else self\<lparr>bias := None\<rparr>);
              self = self\<lparr>input_spec := \<lparr> ndim = rank self + 2,
                                            axes = [(channel_axis, input_dim)] \<rparr>\<rparr>
          in (None, self\<lparr>built := True\<rparr>))"

subsection \<open>\<open>_Conv.compute_output_shape\<close>\<close>

text \<open>The loop \<open>for i in range(len(space))\<close>, with \<open>new_space\<close> as the accumulator.\<close>

function conv_new_space ::
  "'a conv_layer_scheme \<Rightarrow> shape \<Rightarrow> nat \<Rightarrow> shape \<Rightarrow> error + shape" where
  "conv_new_space self space i new_space =
     (if i < length space then
        and_then (getitem space (int i)) (\<lambda>space_i.
        and_then (getitem (kernel_size self) (int i)) (\<lambda>k.
        and_then (getitem (strides self) (int i)) (\<lambda>s.
        and_then (getitem (dilation_rate self) (int i)) (\<lambda>d.
        and_then (conv_output_length space_i k (padding self) s d) (\<lambda>new_dim.
          conv_new_space self space (i + 1) (new_space @ [new_dim]))))))
      else Inr new_space)"
  by pat_completeness auto
termination
  by (relation "measure (\<lambda>(self, space, i, new_space). length space - i)") auto

declare conv_new_space.simps [simp del]

definition Conv_compute_output_shape :: "'a conv_layer_scheme \<Rightarrow> shape \<Rightarrow> error + shape" where
  "Conv_compute_output_shape self input_shape =
     (let space = (if data_format self = channels_last then butlast (tl input_shape)
                   else drop 2 input_shape) in
      and_then (conv_new_space self space 0 []) (\<lambda>new_space.
      and_then (getitem input_shape 0) (\<lambda>batch.
        if data_format self = channels_last
        then Inr ([batch] @ new_space @ [filters self])
        else Inr ([batch, filters self] @ new_space))))"

section \<open>Transposed convolutions\<close>

text \<open>\<open>Conv2DTranspose(Conv2D)\<close> and \<open>Conv3DTranspose(Conv3D)\<close> add one attribute.\<close>

record conv_transpose_layer = conv_layer +
  output_padding :: "int list option"

text \<open>The loop \<open>for stride, out_pad in zip(self.strides, self.output_padding)\<close>.\<close>

fun check_output_padding :: "(int \<times> int) list \<Rightarrow> error + unit" where
  "check_output_padding [] = Inr ()"
| "check_output_padding ((stride, out_pad) # rest) =
     (if out_pad \<ge> stride then Inl (ValueError Stride_must_be_greater_than_output_padding)
      else check_output_padding rest)"

text \<open>
  The part of the two constructors after the call of the superclass constructor, for
  the rank \<open>n\<close> they pass to \<open>normalize_tuple\<close>.
\<close>

definition set_output_padding ::
  "nat \<Rightarrow> tuple_arg option \<Rightarrow> conv_layer \<Rightarrow> error + conv_transpose_layer" where
  "set_output_padding n output_padding' self =
     (case output_padding' of
        None \<Rightarrow> Inr (conv_layer.extend self \<lparr> output_padding = None \<rparr>)
      | Some v \<Rightarrow>
          and_then (normalize_tuple v n) (\<lambda>op.
          and_then (check_output_padding (zip (strides self) op)) (\<lambda>_.
            Inr (conv_layer.extend self \<lparr> output_padding = Some op \<rparr>))))"

definition Conv2DTranspose_init ::
  "data_layout \<Rightarrow> int option \<Rightarrow> tuple_arg \<Rightarrow> tuple_arg \<Rightarrow> string \<Rightarrow> tuple_arg option
     \<Rightarrow> string option \<Rightarrow> tuple_arg \<Rightarrow> bool \<Rightarrow> error + conv_transpose_layer" where
  "Conv2DTranspose_init image_data_format filters' kernel_size' strides' padding'
       output_padding' data_format' dilation_rate' use_bias' =
     and_then (Conv2D_init image_data_format filters' kernel_size' strides' padding'
                 data_format' dilation_rate' use_bias')
       (set_output_padding 2 output_padding')"

text \<open>
  \<open>Conv3DTranspose.__init__\<close> has no \<open>dilation_rate\<close> argument: \<open>Conv3D.__init__\<close>
  gets its default \<open>(1, 1, 1)\<close>.
\<close>

definition Conv3DTranspose_init ::
  "data_layout \<Rightarrow> int option \<Rightarrow> tuple_arg \<Rightarrow> tuple_arg \<Rightarrow> string \<Rightarrow> tuple_arg option
     \<Rightarrow> string option \<Rightarrow> bool \<Rightarrow> error + conv_transpose_layer" where
  "Conv3DTranspose_init image_data_format filters' kernel_size' strides' padding'
       output_padding' data_format' use_bias' =
     and_then (Conv3D_init image_data_format filters' kernel_size' strides' padding'
                 data_format' (SeqArg [1, 1, 1]) use_bias')
       (set_output_padding 3 output_padding')"

subsection \<open>\<open>Conv2DTranspose.build\<close> and \<open>Conv3DTranspose.build\<close>\<close>

text \<open>
  The two methods differ in the rank they require (4 and 5), which is the first
  parameter here.
\<close>

definition ConvTranspose_build ::
  "nat \<Rightarrow> 'a conv_transpose_layer_scheme \<Rightarrow> shape
     \<Rightarrow> error option \<times> 'a conv_transpose_layer_scheme" where
  "ConvTranspose_build required_rank self input_shape =
     (if length input_shape \<noteq> required_rank
      then (Some (ValueError Inputs_should_have_rank), self)
      else
        let channel_axis = (if data_format self = channels_first then 1 else - 1) in
        case getitem input_shape channel_axis of
          Inl e \<Rightarrow> (Some e, self)
        | Inr None \<Rightarrow> (Some (ValueError Channel_dimension_undefined), self)
        | Inr (Some input_dim) \<Rightarrow>
            let kernel_shape = map Some (kernel_size self) @ [filters self, Some input_dim];
                (k, self) = add_weight ''kernel'' kernel_shape self;
                self = self\<lparr>kernel := Some k\<rparr>;
                self = (if use_bias self
                        then (let (b, self) = add_weight ''bias'' [filters self] self
                              in self\<lparr>bias := Some b\<rparr>)
                        else self\<lparr>bias := None\<rparr>);
                self = self\<lparr>input_spec := \<lparr> ndim = required_rank,
                                              axes = [(channel_axis, input_dim)] \<rparr>\<rparr>
            in (None, self\<lparr>built := True\<rparr>))"

definition Conv2DTranspose_build ::
  "'a conv_transpose_layer_scheme \<Rightarrow> shape \<Rightarrow> error option \<times> 'a conv_transpose_layer_scheme" where
  "Conv2DTranspose_build = ConvTranspose_build 4"

definition Conv3DTranspose_build ::
  "'a conv_transpose_layer_scheme \<Rightarrow> shape \<Rightarrow> error option \<times> 'a conv_transpose_layer_scheme" where
  "Conv3DTranspose_build = ConvTranspose_build 5"

subsection \<open>\<open>Conv2DTranspose.compute_output_shape\<close>, \<open>Conv3DTranspose.compute_output_shape\<close>\<close>

text \<open>
  \<open>output_shape[axis] = deconv_length(output_shape[axis], stride, kernel, self.padding,
  out_pad, dilation)\<close>: the right-hand side is evaluated before the store.
\<close>

definition deconv_axis ::
  "padding_mode \<Rightarrow> shape \<Rightarrow> nat \<Rightarrow> int \<Rightarrow> int \<Rightarrow> int option \<Rightarrow> int \<Rightarrow> error + shape" where
  "deconv_axis padding' output_shape axis stride kernel' out_pad dilation =
     and_then (getitem output_shape (int axis)) (\<lambda>d.
     and_then (deconv_length d stride kernel' padding' out_pad dilation) (\<lambda>d'.
       setitem output_shape axis d'))"

definition Conv2DTranspose_compute_output_shape ::
  "'a conv_transpose_layer_scheme \<Rightarrow> shape \<Rightarrow> error + shape" where
  "Conv2DTranspose_compute_output_shape self input_shape =
     (let output_shape = input_shape;
          (c_axis, h_axis, w_axis) =
             (if data_format self = channels_first then (1, 2, 3) else (3, 1, 2)) in
      and_then (unpack2 (kernel_size self)) (\<lambda>(kernel_h, kernel_w).
      and_then (unpack2 (strides self)) (\<lambda>(stride_h, stride_w).
      and_then (case output_padding self of
                  None \<Rightarrow> Inr (None, None)
                | Some op \<Rightarrow> and_then (unpack2 op) (\<lambda>(a, b). Inr (Some a, Some b)))
        (\<lambda>(out_pad_h, out_pad_w).
      and_then (setitem output_shape c_axis (filters self)) (\<lambda>output_shape.
      and_then (getitem (dilation_rate self) 0) (\<lambda>dilation_h.
      and_then (deconv_axis (padding self) output_shape h_axis stride_h kernel_h out_pad_h
                  dilation_h) (\<lambda>output_shape.
      and_then (getitem (dilation_rate self) 1) (\<lambda>dilation_w.
      deconv_axis (padding self) output_shape w_axis stride_w kernel_w out_pad_w
        dilation_w))))))))"

text \<open>In three dimensions \<open>deconv_length\<close> is called with its default dilation, 1.\<close>

definition Conv3DTranspose_compute_output_shape ::
  "'a conv_transpose_layer_scheme \<Rightarrow> shape \<Rightarrow> error + shape" where
  "Conv3DTranspose_compute_output_shape self input_shape =
     (let output_shape = input_shape;
          (c_axis, d_axis, h_axis, w_axis) =
             (if data_format self = channels_first then (1, 2, 3, 4) else (4, 1, 2, 3)) in
      and_then (unpack3 (kernel_size self)) (\<lambda>(kernel_d, kernel_h, kernel_w).
      and_then (unpack3 (strides self)) (\<lambda>(stride_d, stride_h, stride_w).
      and_then (case output_padding self of
                  None \<Rightarrow> Inr (None, None, None)
                | Some op \<Rightarrow> and_then (unpack3 op) (\<lambda>(a, b, c). Inr (Some a, Some b, Some c)))
        (\<lambda>(out_pad_d, out_pad_h, out_pad_w).
      and_then (setitem output_shape c_axis (filters self)) (\<lambda>output_shape.
      and_then (deconv_axis (padding self) output_shape d_axis stride_d kernel_d out_pad_d 1)
        (\<lambda>output_shape.
      and_then (deconv_axis (padding self) output_shape h_axis stride_h kernel_h out_pad_h 1)
        (\<lambda>output_shape.
      deconv_axis (padding self) output_shape w_axis stride_w kernel_w out_pad_w 1)))))))"

section \<open>Depthwise and separable convolutions\<close>

text \<open>
  \<open>_SeparableConv(_Conv)\<close> and \<open>DepthwiseConv2D(Conv2D)\<close> both add
  \<open>depth_multiplier\<close> and \<open>depthwise_kernel\<close>; only \<open>_SeparableConv.build\<close>
  ever assigns \<open>pointwise_kernel\<close>.
\<close>

record depth_conv_layer = conv_layer +
  depth_multiplier :: int
  depthwise_kernel :: "shape option"
  pointwise_kernel :: "shape option"

definition DepthwiseConv2D_init ::
  "data_layout \<Rightarrow> tuple_arg \<Rightarrow> tuple_arg \<Rightarrow> string \<Rightarrow> int \<Rightarrow> string option \<Rightarrow> tuple_arg
     \<Rightarrow> bool \<Rightarrow> error + depth_conv_layer" where
  "DepthwiseConv2D_init image_data_format kernel_size' strides' padding' depth_multiplier'
       data_format' dilation_rate' use_bias' =
     and_then (Conv2D_init image_data_format None kernel_size' strides' padding' data_format'
                 dilation_rate' use_bias') (\<lambda>self.
       Inr (conv_layer.extend self
              \<lparr> depth_multiplier = depth_multiplier', depthwise_kernel = None,
                pointwise_kernel = None \<rparr>))"

definition SeparableConv_init ::
  "data_layout \<Rightarrow> nat \<Rightarrow> int option \<Rightarrow> tuple_arg \<Rightarrow> tuple_arg \<Rightarrow> string \<Rightarrow> string option
     \<Rightarrow> tuple_arg \<Rightarrow> int \<Rightarrow> bool \<Rightarrow> error + depth_conv_layer" where
  "SeparableConv_init image_data_format rank' filters' kernel_size' strides' padding'
       data_format' dilation_rate' depth_multiplier' use_bias' =
     and_then (Conv_init image_data_format rank' filters' kernel_size' strides' padding'
                 data_format' dilation_rate' use_bias') (\<lambda>self.
       Inr (conv_layer.extend self
              \<lparr> depth_multiplier = depth_multiplier', depthwise_kernel = None,
                pointwise_kernel = None \<rparr>))"

subsection \<open>\<open>_SeparableConv.build\<close>\<close>

definition SeparableConv_build ::
  "'a depth_conv_layer_scheme \<Rightarrow> shape \<Rightarrow> error option \<times> 'a depth_conv_layer_scheme" where
  "SeparableConv_build self input_shape =
     (if length input_shape < rank self + 2
      then (Some (ValueError Inputs_should_have_rank), self)
      else
        let channel_axis = (if data_format self = channels_first then 1 else - 1) in
        case getitem input_shape channel_axis of
          Inl e \<Rightarrow> (Some e, self)
        | Inr None \<Rightarrow> (Some (ValueError Channel_dimension_undefined), self)
        | Inr (Some input_dim) \<Rightarrow>
            let depthwise_kernel_shape = [Some input_dim, Some (depth_multiplier self)];
                depthwise_kernel_shape = map Some (kernel_size self) @ depthwise_kernel_shape;
                pointwise_kernel_shape = [Some (depth_multiplier self * input_dim), filters self];
                pointwise_kernel_shape = replicate (rank self) (Some 1) @ pointwise_kernel_shape;
                (dk, self) = add_weight ''depthwise_kernel'' depthwise_kernel_shape self;
                self = self\<lparr>depthwise_kernel := Some dk\<rparr>;
                (pk, self) = add_weight ''pointwise_kernel'' pointwise_kernel_shape self;
                self = self\<lparr>pointwise_kernel := Some pk\<rparr>;
                self = (if use_bias self
                        then (let (b, self) = add_weight ''bias'' [filters self] self
                              in self\<lparr>bias := Some b\<rparr>)
                        else self\<lparr>bias := None\<rparr>);
                self = self\<lparr>input_spec := \<lparr> ndim = rank self + 2,
                                              axes = [(channel_axis, input_dim)] \<rparr>\<rparr>
            in (None, self\<lparr>built := True\<rparr>))"

subsection \<open>\<open>DepthwiseConv2D.build\<close>\<close>

definition DepthwiseConv2D_build ::
  "'a depth_conv_layer_scheme \<Rightarrow> shape \<Rightarrow> error option \<times> 'a depth_conv_layer_scheme" where
  "DepthwiseConv2D_build self input_shape =
     (if length input_shape < 4
      then (Some (ValueError Inputs_should_have_rank), self)
      else
        let channel_axis = (if data_format self = channels_first then 1 else 3) in
        case getitem input_shape channel_axis of
          Inl e \<Rightarrow> (Some e, self)
        | Inr None \<Rightarrow> (Some (ValueError Channel_dimension_undefined), self)
        | Inr (Some input_dim) \<Rightarrow>
            (case and_then (getitem (kernel_size self) 0) (\<lambda>k0.
                  and_then (getitem (kernel_size self) 1) (\<lambda>k1.
                    Inr [Some k0, Some k1, Some input_dim, Some (depth_multiplier self)])) of
               Inl e \<Rightarrow> (Some e, self)
             | Inr depthwise_kernel_shape \<Rightarrow>
                 let (dk, self) = add_weight ''depthwise_kernel'' depthwise_kernel_shape self;
                     self = self\<lparr>depthwise_kernel := Some dk\<rparr>;
                     self = (if use_bias self
                             then (let (b, self) =
                                         add_weight ''bias''
                                           [Some (input_dim * depth_multiplier self)] self
                                   in self\<lparr>bias := Some b\<rparr>)
                             else self\<lparr>bias := None\<rparr>);
                     self = self\<lparr>input_spec := \<lparr> ndim = 4,
                                                   axes = [(channel_axis, input_dim)] \<rparr>\<rparr>
                 in (None, self\<lparr>built := True\<rparr>)))"

subsection \<open>\<open>DepthwiseConv2D.compute_output_shape\<close>\<close>

text \<open>\<open>input_shape[i] * self.depth_multiplier\<close>: \<open>None\<close> times an integer raises.\<close>

definition mul_dim :: "dim \<Rightarrow> int \<Rightarrow> error + dim" where
  "mul_dim d m = (case d of None \<Rightarrow> Inl TypeError | Some n \<Rightarrow> Inr (Some (n * m)))"

definition DepthwiseConv2D_compute_output_shape ::
  "'a depth_conv_layer_scheme \<Rightarrow> shape \<Rightarrow> error + shape" where
  "DepthwiseConv2D_compute_output_shape self input_shape =
     (let space = (if data_format self = channels_last then butlast (tl input_shape)
                   else drop 2 input_shape) in
      and_then (getitem input_shape (if data_format self = channels_last then 3 else 1))
        (\<lambda>channels.
      and_then (mul_dim channels (depth_multiplier self)) (\<lambda>out_filters.
      and_then (conv_new_space self space 0 []) (\<lambda>new_space.
      and_then (getitem input_shape 0) (\<lambda>batch.
      and_then (getitem new_space 0) (\<lambda>new_space_0.
      and_then (getitem new_space 1) (\<lambda>new_space_1.
        if data_format self = channels_last
        then Inr [batch, new_space_0, new_space_1, out_filters]
        else Inr [batch, out_filters, new_space_0, new_space_1])))))))"

section \<open>Upsampling, zero padding and cropping\<close>

text \<open>
  The loop the three \<open>compute_output_shape\<close> methods share,
  \<^verbatim>\<open>for dim in range(len(output_shape)):
       if output_shape[dim] is not None:
           output_shape[dim] = f(output_shape[dim], all_dims[dim])\<close>
  where \<open>f\<close> is \<open>*=\<close>, \<open>+= sum(...)\<close> or \<open>-= sum(...)\<close>.
\<close>

function for_dim_in_range ::
  "(int \<Rightarrow> 'b \<Rightarrow> int) \<Rightarrow> 'b list \<Rightarrow> nat \<Rightarrow> shape \<Rightarrow> error + shape" where
  "for_dim_in_range f all_dims dim output_shape =
     (if dim < length output_shape then
        (case output_shape ! dim of
           None \<Rightarrow> for_dim_in_range f all_dims (dim + 1) output_shape
         | Some d \<Rightarrow>
             (case getitem all_dims (int dim) of
                Inl e \<Rightarrow> Inl e
              | Inr a \<Rightarrow> for_dim_in_range f all_dims (dim + 1) (output_shape[dim := Some (f d a)])))
      else Inr output_shape)"
  by pat_completeness auto
termination
  by (relation "measure (\<lambda>(f, all_dims, dim, output_shape). length output_shape - dim)") auto

declare for_dim_in_range.simps [simp del]

record upsampling_layer = spatial_layer +
  size_up :: "int list"

record zero_padding_layer = spatial_layer +
  zero_padding :: "int list list"

record cropping_layer = spatial_layer +
  cropping :: "int list list"

subsection \<open>\<open>_UpSampling\<close>\<close>

definition UpSampling_init :: "data_layout \<Rightarrow> int list \<Rightarrow> string option \<Rightarrow> error + upsampling_layer" where
  "UpSampling_init image_data_format size' data_format' =
     and_then (normalize_data_format image_data_format data_format') (\<lambda>df.
       Inr \<lparr> weights = [], built = False, rank = length size', data_format = df,
             input_spec = \<lparr> ndim = length size' + 2, axes = [] \<rparr>, size_up = size' \<rparr>)"

definition UpSampling1D_init :: "data_layout \<Rightarrow> int \<Rightarrow> error + upsampling_layer" where
  "UpSampling1D_init image_data_format size' =
     UpSampling_init image_data_format [size'] (Some ''channels_last'')"

definition UpSampling2D_init ::
  "data_layout \<Rightarrow> tuple_arg \<Rightarrow> string option \<Rightarrow> string \<Rightarrow> error + upsampling_layer" where
  "UpSampling2D_init image_data_format size' data_format' interpolation =
     and_then (normalize_tuple size' 2) (\<lambda>normalized_size.
     and_then (UpSampling_init image_data_format normalized_size data_format') (\<lambda>self.
       if interpolation \<notin> set [''nearest'', ''bilinear'']
       then Inl (ValueError Interpolation_argument) else Inr self))"

definition UpSampling3D_init ::
  "data_layout \<Rightarrow> tuple_arg \<Rightarrow> string option \<Rightarrow> error + upsampling_layer" where
  "UpSampling3D_init image_data_format size' data_format' =
     and_then (normalize_tuple size' 3) (\<lambda>normalized_size.
       UpSampling_init image_data_format normalized_size data_format')"

definition UpSampling_compute_output_shape ::
  "'a upsampling_layer_scheme \<Rightarrow> shape \<Rightarrow> error + shape" where
  "UpSampling_compute_output_shape self input_shape =
     (let size_all_dims = [1] @ size_up self @ [1];
          spatial_axes = [1 ..< 1 + rank self] in
      and_then (transpose_shape size_all_dims (data_format self) spatial_axes)
        (\<lambda>size_all_dims.
          for_dim_in_range (\<lambda>d s. d * s) size_all_dims 0 input_shape))"

subsection \<open>\<open>_ZeroPadding\<close>\<close>

text \<open>
  The argument of \<open>ZeroPadding2D\<close>, \<open>ZeroPadding3D\<close>, \<open>Cropping2D\<close> and
  \<open>Cropping3D\<close>: an integer, a sequence whose entries are integers or sequences of
  integers, or a value that is neither (\<open>isinstance(v, int)\<close> and
  \<open>hasattr(v, '__len__')\<close> both false).
\<close>

datatype nested_arg = NestedInt int | NestedSeq "tuple_arg list" | NestedOther

text \<open>
  The branch \<open>elif hasattr(v, '__len__')\<close> of the four constructors: the length must
  be \<open>n\<close>, and each entry is normalised to a pair.
\<close>

fun normalize_entries :: "tuple_arg list \<Rightarrow> error + int list list" where
  "normalize_entries [] = Inr []"
| "normalize_entries (v # vs) =
     and_then (normalize_tuple v 2) (\<lambda>p.
     and_then (normalize_entries vs) (\<lambda>ps. Inr (p # ps)))"

definition normalize_nested :: "nat \<Rightarrow> nested_arg \<Rightarrow> error + int list list" where
  "normalize_nested n v =
     (case v of
        NestedInt k \<Rightarrow> Inr (replicate n [k, k])
      | NestedSeq vs \<Rightarrow>
          if length vs \<noteq> n then Inl (ValueError Should_have_n_elements)
          else normalize_entries vs
      | NestedOther \<Rightarrow> Inl (ValueError Should_be_int_or_tuple))"

definition ZeroPadding_init ::
  "data_layout \<Rightarrow> int list list \<Rightarrow> string option \<Rightarrow> error + zero_padding_layer" where
  "ZeroPadding_init image_data_format padding' data_format' =
     and_then (normalize_data_format image_data_format data_format') (\<lambda>df.
       Inr \<lparr> weights = [], built = False, rank = length padding', data_format = df,
             input_spec = \<lparr> ndim = length padding' + 2, axes = [] \<rparr>,
             zero_padding = padding' \<rparr>)"

definition ZeroPadding1D_init :: "data_layout \<Rightarrow> tuple_arg \<Rightarrow> error + zero_padding_layer" where
  "ZeroPadding1D_init image_data_format padding' =
     and_then (normalize_tuple padding' 2) (\<lambda>p.
       ZeroPadding_init image_data_format [p] (Some ''channels_last''))"

definition ZeroPadding2D_init ::
  "data_layout \<Rightarrow> nested_arg \<Rightarrow> string option \<Rightarrow> error + zero_padding_layer" where
  "ZeroPadding2D_init image_data_format padding' data_format' =
     and_then (normalize_nested 2 padding') (\<lambda>normalized_padding.
       ZeroPadding_init image_data_format normalized_padding data_format')"

definition ZeroPadding3D_init ::
  "data_layout \<Rightarrow> nested_arg \<Rightarrow> string option \<Rightarrow> error + zero_padding_layer" where
  "ZeroPadding3D_init image_data_format padding' data_format' =
     and_then (normalize_nested 3 padding') (\<lambda>normalized_padding.
       ZeroPadding_init image_data_format normalized_padding data_format')"

definition ZeroPadding_compute_output_shape ::
  "'a zero_padding_layer_scheme \<Rightarrow> shape \<Rightarrow> error + shape" where
  "ZeroPadding_compute_output_shape self input_shape =
     (let padding_all_dims = [[0, 0]] @ zero_padding self @ [[0, 0]];
          spatial_axes = [1 ..< 1 + rank self] in
      and_then (transpose_shape padding_all_dims (data_format self) spatial_axes)
        (\<lambda>padding_all_dims.
          for_dim_in_range (\<lambda>d p. d + sum_list p) padding_all_dims 0 input_shape))"

subsection \<open>\<open>_Cropping\<close>\<close>

definition Cropping_init ::
  "data_layout \<Rightarrow> int list list \<Rightarrow> string option \<Rightarrow> error + cropping_layer" where
  "Cropping_init image_data_format cropping' data_format' =
     and_then (normalize_data_format image_data_format data_format') (\<lambda>df.
       Inr \<lparr> weights = [], built = False, rank = length cropping', data_format = df,
             input_spec = \<lparr> ndim = 2 + length cropping', axes = [] \<rparr>,
             cropping = cropping' \<rparr>)"

definition Cropping1D_init :: "data_layout \<Rightarrow> tuple_arg \<Rightarrow> error + cropping_layer" where
  "Cropping1D_init image_data_format cropping' =
     and_then (normalize_tuple cropping' 2) (\<lambda>c.
       Cropping_init image_data_format [c] (Some ''channels_last''))"

definition Cropping2D_init ::
  "data_layout \<Rightarrow> nested_arg \<Rightarrow> string option \<Rightarrow> error + cropping_layer" where
  "Cropping2D_init image_data_format cropping' data_format' =
     and_then (normalize_nested 2 cropping') (\<lambda>normalized_cropping.
       Cropping_init image_data_format normalized_cropping data_format')"

text \<open>\<open>Cropping3D.__init__\<close> normalises the data format before anything else.\<close>

definition Cropping3D_init ::
  "data_layout \<Rightarrow> nested_arg \<Rightarrow> string option \<Rightarrow> error + cropping_layer" where
  "Cropping3D_init image_data_format cropping' data_format' =
     and_then (normalize_data_format image_data_format data_format') (\<lambda>_.
     and_then (normalize_nested 3 cropping') (\<lambda>normalized_cropping.
       Cropping_init image_data_format normalized_cropping data_format'))"

definition Cropping_compute_output_shape ::
  "'a cropping_layer_scheme \<Rightarrow> shape \<Rightarrow> error + shape" where
  "Cropping_compute_output_shape self input_shape =
     (let cropping_all_dims = [[0, 0]] @ cropping self @ [[0, 0]];
          spatial_axes = [1 ..< 1 + rank self] in
      and_then (transpose_shape cropping_all_dims (data_format self) spatial_axes)
        (\<lambda>cropping_all_dims.
          for_dim_in_range (\<lambda>d c. d - sum_list c) cropping_all_dims 0 input_shape))"

section \<open>\<open>Reshape\<close> and \<open>Flatten\<close> (\<open>core.py\<close>)\<close>

text \<open>
  The loop \<open>for index, dim in enumerate(output_shape)\<close> of
  \<open>Reshape._fix_unknown_dimension\<close>, with \<open>known\<close> and \<open>unknown\<close> as its state.
\<close>

fun find_unknown :: "(nat \<times> int) list \<Rightarrow> int \<Rightarrow> nat option \<Rightarrow> error + int \<times> nat option" where
  "find_unknown [] known unknown = Inr (known, unknown)"
| "find_unknown ((index, dim) # rest) known unknown =
     (if dim < 0 then
        (case unknown of
           None \<Rightarrow> find_unknown rest known (Some index)
         | Some _ \<Rightarrow> Inl (ValueError Only_one_unknown_dimension))
      else find_unknown rest (known * dim) unknown)"

text \<open>
  \<open>original\<close> is an \<open>int64\<close> of numpy and \<open>known\<close> a Python integer. When
  \<open>known\<close> fits \<open>int64\<close>, \<open>%\<close>, \<open>//\<close> and \<open>!=\<close> on the two work in \<open>int64\<close>
  and round as Python's do (the quotient has at most the magnitude of \<open>original\<close>).
  When it does not fit, the result depends on numpy's version and is not modelled: the
  result of the function is \<open>None\<close> then, as it is when \<open>np.prod\<close> is not modelled.
\<close>

definition fix_unknown_dimension :: "int list \<Rightarrow> int list \<Rightarrow> (error + int list) option" where
  "fix_unknown_dimension input_shape output_shape =
     (case find_unknown (enumerate 0 output_shape) 1 None of
        Inl e \<Rightarrow> Some (Inl e)
      | Inr (known, unknown) \<Rightarrow>
          (case np_prod input_shape of
             None \<Rightarrow> None
           | Some original \<Rightarrow>
               if \<not> int64 known then None
               else Some
                 (case unknown of
                    Some u \<Rightarrow>
                      if known = 0 \<or> original mod known \<noteq> 0
                      then Inl (ValueError Total_size_must_be_unchanged)
                      else Inr (output_shape[u := original div known])
                  | None \<Rightarrow>
                      if original \<noteq> known then Inl (ValueError Total_size_must_be_unchanged)
                      else Inr output_shape)))"

text \<open>
  In both branches \<open>input_shape[0]\<close> is evaluated first. \<open>None\<close> is the result where
  \<open>_fix_unknown_dimension\<close> is not modelled.
\<close>

definition Reshape_compute_output_shape :: "int list \<Rightarrow> shape \<Rightarrow> (error + shape) option" where
  "Reshape_compute_output_shape target_shape input_shape =
     (if None \<in> set (tl input_shape)
      then Some (and_then (getitem input_shape 0) (\<lambda>batch.
             Inr ([batch] @ map (\<lambda>s. if s \<noteq> - 1 then Some s else None) target_shape)))
      else (case getitem input_shape 0 of
              Inl e \<Rightarrow> Some (Inl e)
            | Inr batch \<Rightarrow>
                (case fix_unknown_dimension (map the (tl input_shape)) target_shape of
                   None \<Rightarrow> None
                 | Some r \<Rightarrow> Some (and_then r (\<lambda>fixed. Inr ([batch] @ map Some fixed))))))"

text \<open>
  \<open>all(input_shape[1:])\<close> is false when an entry is \<open>None\<close> or 0. For an input shape
  with the batch entry only, \<open>np.prod(())\<close> is the float 1.0, which Python compares
  equal to the integer 1 it is here. \<open>None\<close> is the result where \<open>np.prod\<close> is not
  modelled.
\<close>

definition truthy :: "dim \<Rightarrow> bool" where
  "truthy d = (case d of None \<Rightarrow> False | Some n \<Rightarrow> n \<noteq> 0)"

definition Flatten_compute_output_shape :: "shape \<Rightarrow> (error + shape) option" where
  "Flatten_compute_output_shape input_shape =
     (if \<not> list_all truthy (tl input_shape)
      then Some (Inl (ValueError Input_not_fully_defined))
      else (case getitem input_shape 0 of
              Inl e \<Rightarrow> Some (Inl e)
            | Inr batch \<Rightarrow>
                (case np_prod (map the (tl input_shape)) of
                   None \<Rightarrow> None
                 | Some p \<Rightarrow> Some (Inr [batch, Some p]))))"

section \<open>Properties\<close>

subsection \<open>Basic facts\<close>

lemma and_then_simps [simp]:
  "and_then (Inr v) f = f v"
  "and_then (Inl e) f = Inl e"
  by (simp_all add: and_then_def)

lemma getitem_last:
  "getitem xs (- 1) = (if xs = [] then Inl IndexError else Inr (last xs))"
  by (cases xs rule: rev_cases) (simp_all add: getitem_def)

lemma getitem_nat:
  "getitem xs (int i) = (if i < length xs then Inr (xs ! i) else Inl IndexError)"
  by (simp add: getitem_def)

subsection \<open>The literal Conv2D example\<close>

definition conv2d_literal :: conv_layer where
  "conv2d_literal =
     \<lparr> weights = [], built = False, rank = 2, data_format = channels_last,
       input_spec = \<lparr> ndim = 4, axes = [] \<rparr>,
       filters = Some 16, kernel_size = [3, 3], strides = [1, 1], padding = VALID,
       dilation_rate = [1, 1], use_bias = True, kernel = None, bias = None \<rparr>"

lemma conv2d_literal_init:
  "Conv2D_init df (Some 16) (SeqArg [3, 3]) (SeqArg [1, 1]) ''valid'' (Some ''channels_last'')
       (SeqArg [1, 1]) True = Inr conv2d_literal"
  by (simp add: Conv2D_init_def Conv_init_def normalize_tuple_def normalize_padding_def
      normalize_data_format_def lower_char_def conv2d_literal_def and_then_def)

lemma conv2d_literal_build:
  "Conv_build conv2d_literal [None, Some 28, Some 28, Some 3] =
     (None, conv2d_literal
        \<lparr> weights := [(''kernel'', [Some 3, Some 3, Some 3, Some 16]), (''bias'', [Some 16])],
          built := True,
          kernel := Some [Some 3, Some 3, Some 3, Some 16],
          bias := Some [Some 16],
          input_spec := \<lparr> ndim = 4, axes = [(- 1, 3)] \<rparr> \<rparr>)"
  by (simp add: Conv_build_def conv2d_literal_def getitem_def add_weight_def Let_def)

lemma conv2d_literal_output_shape:
  "Conv_compute_output_shape (snd (Conv_build conv2d_literal [None, Some 28, Some 28, Some 3]))
       [None, Some 28, Some 28, Some 3] = Inr [None, Some 26, Some 26, Some 16]"
  unfolding conv2d_literal_build
  by (simp add: Conv_compute_output_shape_def conv2d_literal_def conv_new_space.simps
      getitem_def conv_output_length_def and_then_def)

text \<open>
  C3. A Conv2D constructed with filters 16, kernel size (3, 3), strides (1, 1), "valid"
  padding and the channels-last layout, built on the input shape (None, 28, 28, 3),
  requests a kernel of shape (3, 3, 3, 16) and then a bias of shape (16,), and nothing
  else; its output shape for that input is (None, 26, 26, 16).
\<close>

theorem conv2d_literal_example:
  "Conv2D_init df (Some 16) (SeqArg [3, 3]) (SeqArg [1, 1]) ''valid'' (Some ''channels_last'')
       (SeqArg [1, 1]) True = Inr conv2d_literal
   \<and> fst (Conv_build conv2d_literal [None, Some 28, Some 28, Some 3]) = None
   \<and> weights (snd (Conv_build conv2d_literal [None, Some 28, Some 28, Some 3])) =
        [(''kernel'', [Some 3, Some 3, Some 3, Some 16]), (''bias'', [Some 16])]
   \<and> kernel (snd (Conv_build conv2d_literal [None, Some 28, Some 28, Some 3])) =
        Some [Some 3, Some 3, Some 3, Some 16]
   \<and> bias (snd (Conv_build conv2d_literal [None, Some 28, Some 28, Some 3])) = Some [Some 16]
   \<and> Conv_compute_output_shape (snd (Conv_build conv2d_literal [None, Some 28, Some 28, Some 3]))
        [None, Some 28, Some 28, Some 3] = Inr [None, Some 26, Some 26, Some 16]"
  using conv2d_literal_init conv2d_literal_output_shape
  by (simp add: conv2d_literal_build)

subsection \<open>What a successful \<open>build\<close> requests\<close>

lemma conv_build_ok:
  assumes "getitem input_shape (if data_format self = channels_first then 1 else - 1) = Inr (Some c)"
  shows "Conv_build self input_shape =
     (None, self\<lparr> weights := weights self @
                      (''kernel'', map Some (kernel_size self) @ [Some c, filters self]) #
                      (if use_bias self then [(''bias'', [filters self])] else []),
                  built := True,
                  input_spec := \<lparr> ndim = rank self + 2, axes =
                     [(if data_format self = channels_first then 1 else - 1, c)] \<rparr>,
                  kernel := Some (map Some (kernel_size self) @ [Some c, filters self]),
                  bias := (if use_bias self then Some [filters self] else None) \<rparr>)"
  using assms by (simp add: Conv_build_def add_weight_def Let_def)

lemma transposed_build_ok:
  assumes "length input_shape = n"
    and "getitem input_shape (if data_format self = channels_first then 1 else - 1) = Inr (Some c)"
  shows "ConvTranspose_build n self input_shape =
     (None, self\<lparr> weights := weights self @
                      (''kernel'', map Some (kernel_size self) @ [filters self, Some c]) #
                      (if use_bias self then [(''bias'', [filters self])] else []),
                  built := True,
                  input_spec := \<lparr> ndim = n, axes =
                     [(if data_format self = channels_first then 1 else - 1, c)] \<rparr>,
                  kernel := Some (map Some (kernel_size self) @ [filters self, Some c]),
                  bias := (if use_bias self then Some [filters self] else None) \<rparr>)"
  using assms by (simp add: ConvTranspose_build_def add_weight_def Let_def)

definition conv2d_transpose_literal :: conv_transpose_layer where
  "conv2d_transpose_literal =
     \<lparr> weights = [], built = False, rank = 2, data_format = channels_last,
       input_spec = \<lparr> ndim = 4, axes = [] \<rparr>,
       filters = Some 16, kernel_size = [3, 3], strides = [2, 2], padding = SAME,
       dilation_rate = [1, 1], use_bias = True, kernel = None, bias = None,
       output_padding = None \<rparr>"

definition conv3d_transpose_literal :: conv_transpose_layer where
  "conv3d_transpose_literal =
     \<lparr> weights = [], built = False, rank = 3, data_format = channels_first,
       input_spec = \<lparr> ndim = 5, axes = [] \<rparr>,
       filters = Some 4, kernel_size = [3, 3, 3], strides = [2, 2, 2], padding = VALID,
       dilation_rate = [1, 1, 1], use_bias = False, kernel = None, bias = None,
       output_padding = Some [1, 1, 1] \<rparr>"

text \<open>
  C1. A transposed convolution (\<open>Conv2DTranspose\<close> on an input of rank 4,
  \<open>Conv3DTranspose\<close> on an input of rank 5) whose input has the known channel
  dimension \<open>c\<close> is built without error, and the first parameter it requests is the
  kernel, of shape \<open>kernel_size + (filters, c)\<close>; the only other request is the bias
  when \<open>use_bias\<close> holds. A plain convolution requests the kernel
  \<open>kernel_size + (c, filters)\<close>: the two channel entries are swapped.
\<close>

theorem transposed_kernel_shape:
  fixes t2 t3 :: "'a conv_transpose_layer_scheme" and plain :: "'b conv_layer_scheme"
  shows
  "(length s2 = 4 \<and> getitem s2 (if data_format t2 = channels_first then 1 else - 1) = Inr (Some c2)
      \<longrightarrow> fst (Conv2DTranspose_build t2 s2) = None
        \<and> kernel (snd (Conv2DTranspose_build t2 s2)) =
            Some (map Some (kernel_size t2) @ [filters t2, Some c2])
        \<and> weights (snd (Conv2DTranspose_build t2 s2)) =
            weights t2 @ (''kernel'', map Some (kernel_size t2) @ [filters t2, Some c2]) #
              (if use_bias t2 then [(''bias'', [filters t2])] else []))
   \<and> (length s3 = 5 \<and> getitem s3 (if data_format t3 = channels_first then 1 else - 1) = Inr (Some c3)
      \<longrightarrow> fst (Conv3DTranspose_build t3 s3) = None
        \<and> kernel (snd (Conv3DTranspose_build t3 s3)) =
            Some (map Some (kernel_size t3) @ [filters t3, Some c3])
        \<and> weights (snd (Conv3DTranspose_build t3 s3)) =
            weights t3 @ (''kernel'', map Some (kernel_size t3) @ [filters t3, Some c3]) #
              (if use_bias t3 then [(''bias'', [filters t3])] else []))
   \<and> (getitem s (if data_format plain = channels_first then 1 else - 1) = Inr (Some c)
      \<longrightarrow> fst (Conv_build plain s) = None
        \<and> kernel (snd (Conv_build plain s)) =
            Some (map Some (kernel_size plain) @ [Some c, filters plain])
        \<and> weights (snd (Conv_build plain s)) =
            weights plain @ (''kernel'', map Some (kernel_size plain) @ [Some c, filters plain]) #
              (if use_bias plain then [(''bias'', [filters plain])] else []))"
  by (simp add: Conv2DTranspose_build_def Conv3DTranspose_build_def transposed_build_ok
      conv_build_ok)

theorem transposed_kernel_shape_witness:
  "fst (Conv2DTranspose_build conv2d_transpose_literal [None, Some 14, Some 14, Some 8]) = None
   \<and> kernel (snd (Conv2DTranspose_build conv2d_transpose_literal
                    [None, Some 14, Some 14, Some 8])) =
        Some [Some 3, Some 3, Some 16, Some 8]
   \<and> fst (Conv3DTranspose_build conv3d_transpose_literal
            [None, Some 2, Some 5, Some 5, Some 5]) = None
   \<and> weights (snd (Conv3DTranspose_build conv3d_transpose_literal
                     [None, Some 2, Some 5, Some 5, Some 5])) =
        [(''kernel'', [Some 3, Some 3, Some 3, Some 4, Some 2])]
   \<and> kernel (snd (Conv_build conv2d_literal [None, Some 28, Some 28, Some 3])) =
        Some [Some 3, Some 3, Some 3, Some 16]"
  using transposed_kernel_shape [of "[None, Some 14, Some 14, Some 8]" conv2d_transpose_literal 8
      "[None, Some 2, Some 5, Some 5, Some 5]" conv3d_transpose_literal 2
      "[None, Some 28, Some 28, Some 3]" conv2d_literal 3]
  by (simp add: getitem_def conv2d_transpose_literal_def conv3d_transpose_literal_def
      conv2d_literal_def)

subsection \<open>A failing \<open>build\<close>\<close>

lemma conv_build_failure:
  "fst (Conv_build self s) \<noteq> None \<Longrightarrow> snd (Conv_build self s) = self"
  by (auto simp: Conv_build_def add_weight_def Let_def
      split: sum.splits option.splits prod.splits)

lemma transposed_build_failure:
  "fst (ConvTranspose_build n self s) \<noteq> None \<Longrightarrow> snd (ConvTranspose_build n self s) = self"
  by (auto simp: ConvTranspose_build_def add_weight_def Let_def
      split: sum.splits option.splits prod.splits)

lemma separable_build_failure:
  "fst (SeparableConv_build self s) \<noteq> None \<Longrightarrow> snd (SeparableConv_build self s) = self"
  by (auto simp: SeparableConv_build_def add_weight_def Let_def
      split: sum.splits option.splits prod.splits)

lemma depthwise_build_failure:
  "fst (DepthwiseConv2D_build self s) \<noteq> None \<Longrightarrow> snd (DepthwiseConv2D_build self s) = self"
  by (auto simp: DepthwiseConv2D_build_def add_weight_def Let_def
      split: sum.splits option.splits prod.splits)

lemma conv_build_channel_none:
  "getitem s (if data_format self = channels_first then 1 else - 1) = Inr None \<Longrightarrow>
   fst (Conv_build self s) = Some (ValueError Channel_dimension_undefined)"
  by (simp add: Conv_build_def)

lemma transposed_build_fails:
  "length s \<noteq> n \<Longrightarrow>
   fst (ConvTranspose_build n self s) = Some (ValueError Inputs_should_have_rank)"
  "length s = n \<Longrightarrow>
   getitem s (if data_format self = channels_first then 1 else - 1) = Inr None \<Longrightarrow>
   fst (ConvTranspose_build n self s) = Some (ValueError Channel_dimension_undefined)"
  by (simp_all add: ConvTranspose_build_def)

lemma separable_build_fails:
  "length s < rank self + 2 \<Longrightarrow>
   fst (SeparableConv_build self s) = Some (ValueError Inputs_should_have_rank)"
  "rank self + 2 \<le> length s \<Longrightarrow>
   getitem s (if data_format self = channels_first then 1 else - 1) = Inr None \<Longrightarrow>
   fst (SeparableConv_build self s) = Some (ValueError Channel_dimension_undefined)"
  by (simp_all add: SeparableConv_build_def)

lemma depthwise_build_fails:
  "length s < 4 \<Longrightarrow>
   fst (DepthwiseConv2D_build self s) = Some (ValueError Inputs_should_have_rank)"
  "4 \<le> length s \<Longrightarrow>
   getitem s (if data_format self = channels_first then 1 else 3) = Inr None \<Longrightarrow>
   fst (DepthwiseConv2D_build self s) = Some (ValueError Channel_dimension_undefined)"
  by (simp_all add: DepthwiseConv2D_build_def)

definition depthwise_literal :: depth_conv_layer where
  "depthwise_literal =
     \<lparr> weights = [], built = False, rank = 2, data_format = channels_last,
       input_spec = \<lparr> ndim = 4, axes = [] \<rparr>,
       filters = None, kernel_size = [3, 5], strides = [1, 1], padding = VALID,
       dilation_rate = [1, 1], use_bias = True, kernel = None, bias = None,
       depth_multiplier = 4, depthwise_kernel = None, pointwise_kernel = None \<rparr>"

definition separable_literal :: depth_conv_layer where
  "separable_literal =
     \<lparr> weights = [], built = False, rank = 2, data_format = channels_first,
       input_spec = \<lparr> ndim = 4, axes = [] \<rparr>,
       filters = Some 8, kernel_size = [3, 3], strides = [1, 1], padding = SAME,
       dilation_rate = [1, 1], use_bias = True, kernel = None, bias = None,
       depth_multiplier = 2, depthwise_kernel = None, pointwise_kernel = None \<rparr>"

text \<open>
  C8. Whenever \<open>build\<close> of a convolution-family layer (\<open>_Conv\<close>, \<open>Conv2DTranspose\<close>,
  \<open>Conv3DTranspose\<close>, \<open>_SeparableConv\<close>, \<open>DepthwiseConv2D\<close>) raises, the layer
  object is exactly what it was before the call: no parameter has been requested, kernel
  and bias are unassigned and \<open>built\<close> is unchanged. An input whose channel dimension
  is \<open>None\<close> makes every one of them raise, and so does an input of another rank than 4
  (5) for \<open>Conv2DTranspose\<close> (\<open>Conv3DTranspose\<close>).
\<close>

theorem build_failure_allocates_nothing:
  fixes plain :: "'a conv_layer_scheme"
    and t2 t3 :: "'b conv_transpose_layer_scheme"
    and sep dw :: "'c depth_conv_layer_scheme"
  shows
  "(fst (Conv_build plain s) \<noteq> None \<longrightarrow> snd (Conv_build plain s) = plain)
   \<and> (fst (Conv2DTranspose_build t2 s) \<noteq> None \<longrightarrow> snd (Conv2DTranspose_build t2 s) = t2)
   \<and> (fst (Conv3DTranspose_build t3 s) \<noteq> None \<longrightarrow> snd (Conv3DTranspose_build t3 s) = t3)
   \<and> (fst (SeparableConv_build sep s) \<noteq> None \<longrightarrow> snd (SeparableConv_build sep s) = sep)
   \<and> (fst (DepthwiseConv2D_build dw s) \<noteq> None \<longrightarrow> snd (DepthwiseConv2D_build dw s) = dw)
   \<and> (getitem s (if data_format plain = channels_first then 1 else - 1) = Inr None
        \<longrightarrow> fst (Conv_build plain s) = Some (ValueError Channel_dimension_undefined))
   \<and> (length s \<noteq> 4
        \<longrightarrow> fst (Conv2DTranspose_build t2 s) = Some (ValueError Inputs_should_have_rank))
   \<and> (length s \<noteq> 5
        \<longrightarrow> fst (Conv3DTranspose_build t3 s) = Some (ValueError Inputs_should_have_rank))
   \<and> (length s = 4 \<and> getitem s (if data_format t2 = channels_first then 1 else - 1) = Inr None
        \<longrightarrow> fst (Conv2DTranspose_build t2 s) = Some (ValueError Channel_dimension_undefined))
   \<and> (length s = 5 \<and> getitem s (if data_format t3 = channels_first then 1 else - 1) = Inr None
        \<longrightarrow> fst (Conv3DTranspose_build t3 s) = Some (ValueError Channel_dimension_undefined))
   \<and> (rank sep + 2 \<le> length s
        \<and> getitem s (if data_format sep = channels_first then 1 else - 1) = Inr None
        \<longrightarrow> fst (SeparableConv_build sep s) = Some (ValueError Channel_dimension_undefined))
   \<and> (4 \<le> length s \<and> getitem s (if data_format dw = channels_first then 1 else 3) = Inr None
        \<longrightarrow> fst (DepthwiseConv2D_build dw s) = Some (ValueError Channel_dimension_undefined))"
  unfolding Conv2DTranspose_build_def Conv3DTranspose_build_def
  using conv_build_failure [of plain s] transposed_build_failure [of 4 t2 s]
    transposed_build_failure [of 5 t3 s] separable_build_failure [of sep s]
    depthwise_build_failure [of dw s] conv_build_channel_none [of s plain]
    transposed_build_fails [of s 4 t2] transposed_build_fails [of s 5 t3]
    separable_build_fails(2) [of sep s] depthwise_build_fails(2) [of s dw]
  by blast

theorem build_failure_allocates_nothing_witness:
  "fst (Conv_build conv2d_literal [None, Some 28, Some 28, None]) =
     Some (ValueError Channel_dimension_undefined)
   \<and> snd (Conv_build conv2d_literal [None, Some 28, Some 28, None]) = conv2d_literal
   \<and> fst (Conv2DTranspose_build conv2d_transpose_literal [None, Some 14, Some 8]) =
     Some (ValueError Inputs_should_have_rank)
   \<and> snd (Conv2DTranspose_build conv2d_transpose_literal [None, Some 14, Some 8]) =
     conv2d_transpose_literal
   \<and> fst (Conv3DTranspose_build conv3d_transpose_literal
            [None, None, Some 5, Some 5, Some 5]) =
     Some (ValueError Channel_dimension_undefined)
   \<and> snd (Conv3DTranspose_build conv3d_transpose_literal
            [None, None, Some 5, Some 5, Some 5]) = conv3d_transpose_literal
   \<and> fst (SeparableConv_build separable_literal [None, None, Some 9, Some 9]) =
     Some (ValueError Channel_dimension_undefined)
   \<and> snd (SeparableConv_build separable_literal [None, None, Some 9, Some 9]) =
     separable_literal
   \<and> fst (DepthwiseConv2D_build depthwise_literal [None, Some 9, Some 9, None]) =
     Some (ValueError Channel_dimension_undefined)
   \<and> snd (DepthwiseConv2D_build depthwise_literal [None, Some 9, Some 9, None]) =
     depthwise_literal"
  using
    build_failure_allocates_nothing [where plain = conv2d_literal
      and s = "[None, Some 28, Some 28, None]" and ?t2.0 = conv2d_transpose_literal
      and ?t3.0 = conv3d_transpose_literal and sep = separable_literal
      and dw = depthwise_literal]
    build_failure_allocates_nothing [where plain = conv2d_literal
      and s = "[None, Some 14, Some 8]" and ?t2.0 = conv2d_transpose_literal
      and ?t3.0 = conv3d_transpose_literal and sep = separable_literal
      and dw = depthwise_literal]
    build_failure_allocates_nothing [where plain = conv2d_literal
      and s = "[None, None, Some 5, Some 5, Some 5]" and ?t2.0 = conv2d_transpose_literal
      and ?t3.0 = conv3d_transpose_literal and sep = separable_literal
      and dw = depthwise_literal]
    build_failure_allocates_nothing [where plain = conv2d_literal
      and s = "[None, None, Some 9, Some 9]" and ?t2.0 = conv2d_transpose_literal
      and ?t3.0 = conv3d_transpose_literal and sep = separable_literal
      and dw = depthwise_literal]
    build_failure_allocates_nothing [where plain = conv2d_literal
      and s = "[None, Some 9, Some 9, None]" and ?t2.0 = conv2d_transpose_literal
      and ?t3.0 = conv3d_transpose_literal and sep = separable_literal
      and dw = depthwise_literal]
  by (simp add: getitem_def conv2d_literal_def conv2d_transpose_literal_def
      conv3d_transpose_literal_def separable_literal_def depthwise_literal_def)

subsection \<open>The output padding of a transposed convolution\<close>

lemma normalize_tuple_length: "normalize_tuple v n = Inr ks \<Longrightarrow> length ks = n"
  by (auto simp: normalize_tuple_def split: tuple_arg.splits if_splits)

lemma and_then_Inr_iff:
  "and_then r f = Inr y \<longleftrightarrow> (\<exists>v. r = Inr v \<and> f v = Inr y)"
  by (cases r) simp_all

lemma and_then_Inl_iff:
  "and_then r f = Inl e \<longleftrightarrow> r = Inl e \<or> (\<exists>v. r = Inr v \<and> f v = Inl e)"
  by (cases r) simp_all

lemma Conv_init_fields:
  assumes "Conv_init idf n f ks ss p df dr ub = Inr self"
  shows "rank self = n" "length (kernel_size self) = n" "length (strides self) = n"
    "length (dilation_rate self) = n" "filters self = f" "weights self = []" "\<not> built self"
    "kernel self = None" "bias self = None" "use_bias self = ub"
  using assms
  by (auto simp: Conv_init_def and_then_Inr_iff dest: normalize_tuple_length)

lemma Conv_init_error:
  assumes "Conv_init idf n f ks ss p df dr ub = Inl e"
  shows "e \<in> {ValueError Tuple_argument, ValueError Padding_argument, ValueError Data_format_argument}"
  using assms
  by (auto simp: Conv_init_def and_then_Inl_iff normalize_tuple_def normalize_padding_def
      normalize_data_format_def Let_def split: tuple_arg.splits if_splits option.splits)

lemma check_output_padding_set:
  "check_output_padding ps = (if \<exists>(s, op) \<in> set ps. op \<ge> s
      then Inl (ValueError Stride_must_be_greater_than_output_padding) else Inr ())"
  by (induction ps rule: check_output_padding.induct) auto

lemma check_output_padding_zip:
  "check_output_padding (zip ss ops) =
     (if \<exists>i < min (length ss) (length ops). ops ! i \<ge> ss ! i
      then Inl (ValueError Stride_must_be_greater_than_output_padding) else Inr ())"
  unfolding check_output_padding_set
  by (auto simp: set_zip)

lemma set_output_padding_Some:
  assumes "normalize_tuple v n = Inr op" "length (strides base) = n"
  shows "set_output_padding n (Some v) base =
     (if \<exists>i < n. op ! i \<ge> strides base ! i
      then Inl (ValueError Stride_must_be_greater_than_output_padding)
      else Inr (conv_layer.extend base \<lparr> output_padding = Some op \<rparr>))"
  using assms normalize_tuple_length[OF assms(1)]
  by (simp add: set_output_padding_def check_output_padding_zip)

lemma extend_fields [simp]:
  "strides (conv_layer.extend base m) = strides base"
  "conv_transpose_layer.output_padding (conv_layer.extend base \<lparr> output_padding = x \<rparr>) = x"
  by (simp_all add: conv_layer.defs)

lemma getitem_error: "getitem xs i = Inl e \<Longrightarrow> e = IndexError"
  by (auto simp: getitem_def split: if_splits)

lemma setitem_error: "setitem xs i v = Inl e \<Longrightarrow> e = IndexError"
  by (auto simp: setitem_def split: if_splits)

lemma unpack2_error: "unpack2 xs = Inl e \<Longrightarrow> e = ValueError Values_to_unpack"
  by (cases xs rule: unpack2.cases) auto

lemma unpack3_error: "unpack3 xs = Inl e \<Longrightarrow> e = ValueError Values_to_unpack"
  by (cases xs rule: unpack3.cases) auto

lemma deconv_length_error:
  "deconv_length d s k p op dl = Inl e \<Longrightarrow> e = ValueError Padding_argument"
  by (auto simp: deconv_length_def Let_def split: option.splits if_splits)

lemma deconv_axis_error:
  "deconv_axis p sh a s k op dl = Inl e \<Longrightarrow> e = IndexError \<or> e = ValueError Padding_argument"
  by (auto simp: deconv_axis_def and_then_Inl_iff
      dest: getitem_error setitem_error deconv_length_error)

lemma transposed_build_no_stride_error:
  "fst (ConvTranspose_build n self s) \<noteq> Some (ValueError Stride_must_be_greater_than_output_padding)"
  by (auto simp: ConvTranspose_build_def add_weight_def Let_def
      split: sum.splits option.splits prod.splits dest: getitem_error)

lemma conv2d_transpose_shape_no_stride_error:
  "Conv2DTranspose_compute_output_shape self s \<noteq>
     Inl (ValueError Stride_must_be_greater_than_output_padding)"
  by (auto simp: Conv2DTranspose_compute_output_shape_def and_then_Inl_iff Let_def
      split: option.splits prod.splits if_splits
      dest: getitem_error setitem_error unpack2_error deconv_axis_error)

lemma conv3d_transpose_shape_no_stride_error:
  "Conv3DTranspose_compute_output_shape self s \<noteq>
     Inl (ValueError Stride_must_be_greater_than_output_padding)"
  by (auto simp: Conv3DTranspose_compute_output_shape_def and_then_Inl_iff Let_def
      split: option.splits prod.splits if_splits
      dest: getitem_error setitem_error unpack3_error deconv_axis_error)

lemma conv2d_transpose_init_Some:
  assumes "Conv2D_init idf f ks ss p df dr ub = Inr base" "normalize_tuple v 2 = Inr op"
  shows "Conv2DTranspose_init idf f ks ss p (Some v) df dr ub =
     (if \<exists>i < 2. op ! i \<ge> strides base ! i
      then Inl (ValueError Stride_must_be_greater_than_output_padding)
      else Inr (conv_layer.extend base \<lparr> output_padding = Some op \<rparr>))"
  using assms Conv_init_fields(3) [of idf 2 f ks ss p df dr ub base]
  by (simp add: Conv2DTranspose_init_def Conv2D_init_def set_output_padding_Some)

lemma conv3d_transpose_init_Some:
  assumes "Conv3D_init idf f ks ss p df (SeqArg [1, 1, 1]) ub = Inr base"
    "normalize_tuple v 3 = Inr op"
  shows "Conv3DTranspose_init idf f ks ss p (Some v) df ub =
     (if \<exists>i < 3. op ! i \<ge> strides base ! i
      then Inl (ValueError Stride_must_be_greater_than_output_padding)
      else Inr (conv_layer.extend base \<lparr> output_padding = Some op \<rparr>))"
  using assms Conv_init_fields(3) [of idf 3 f ks ss p df "SeqArg [1, 1, 1]" ub base]
  by (simp add: Conv3DTranspose_init_def Conv3D_init_def set_output_padding_Some)

lemma conv2d_transpose_init_Inr:
  assumes "Conv2DTranspose_init idf f ks ss p (Some v) df dr ub = Inr t"
  shows "\<exists>op. output_padding t = Some op \<and> length op = 2 \<and> length (strides t) = 2
           \<and> (\<forall>i<2. op ! i < strides t ! i)"
proof -
  from assms obtain base where b: "Conv2D_init idf f ks ss p df dr ub = Inr base"
    and s: "set_output_padding 2 (Some v) base = Inr t"
    by (auto simp: Conv2DTranspose_init_def and_then_Inr_iff)
  from s obtain op where n: "normalize_tuple v 2 = Inr op"
    by (auto simp: set_output_padding_def and_then_Inr_iff)
  have len: "length (strides base) = 2"
    using b Conv_init_fields(3) by (simp add: Conv2D_init_def)
  show ?thesis
    using s n len normalize_tuple_length [OF n]
    by (auto simp: set_output_padding_Some [OF n len] split: if_splits simp: not_le)
qed

lemma conv3d_transpose_init_Inr:
  assumes "Conv3DTranspose_init idf f ks ss p (Some v) df ub = Inr t"
  shows "\<exists>op. output_padding t = Some op \<and> length op = 3 \<and> length (strides t) = 3
           \<and> (\<forall>i<3. op ! i < strides t ! i)"
proof -
  from assms obtain base where b: "Conv3D_init idf f ks ss p df (SeqArg [1, 1, 1]) ub = Inr base"
    and s: "set_output_padding 3 (Some v) base = Inr t"
    by (auto simp: Conv3DTranspose_init_def and_then_Inr_iff)
  from s obtain op where n: "normalize_tuple v 3 = Inr op"
    by (auto simp: set_output_padding_def and_then_Inr_iff)
  have len: "length (strides base) = 3"
    using b Conv_init_fields(3) by (simp add: Conv3D_init_def)
  show ?thesis
    using s n len normalize_tuple_length [OF n]
    by (auto simp: set_output_padding_Some [OF n len] split: if_splits simp: not_le)
qed

lemma transposed_init_None:
  "Conv2DTranspose_init idf f ks ss p None df dr ub =
     and_then (Conv2D_init idf f ks ss p df dr ub)
       (\<lambda>base. Inr (conv_layer.extend base \<lparr> output_padding = None \<rparr>))"
  "Conv3DTranspose_init idf f ks ss p None df ub =
     and_then (Conv3D_init idf f ks ss p df (SeqArg [1, 1, 1]) ub)
       (\<lambda>base. Inr (conv_layer.extend base \<lparr> output_padding = None \<rparr>))"
  by (auto simp: Conv2DTranspose_init_def Conv3DTranspose_init_def set_output_padding_def
      intro!: and_then_cong)

lemma transposed_init_None_no_stride_error:
  "Conv2DTranspose_init idf f ks ss p None df dr ub \<noteq>
     Inl (ValueError Stride_must_be_greater_than_output_padding)"
  "Conv3DTranspose_init idf f ks ss p None df ub \<noteq>
     Inl (ValueError Stride_must_be_greater_than_output_padding)"
  unfolding transposed_init_None
  by (auto simp: and_then_Inl_iff Conv2D_init_def Conv3D_init_def dest: Conv_init_error)

text \<open>
  C4. A transposed convolution constructed with an explicit output padding whose
  normalised value is at least the stride on some axis is not constructed: the
  constructor raises the stride error, so that every layer the constructor returns has
  an output padding below the stride on every axis. Without an output padding the
  comparison is not made: the constructor returns what the superclass constructor
  returns, with \<open>output_padding = None\<close>, and never raises the stride error. Neither
  \<open>build\<close> nor \<open>compute_output_shape\<close> raises the stride error, whatever the layer
  object and the input shape.
\<close>

theorem output_padding_checked_at_construction:
  fixes self :: "'a conv_transpose_layer_scheme"
  shows
  "(Conv2D_init idf f ks ss p df dr ub = Inr base2 \<and> normalize_tuple v 2 = Inr op2 \<and> i2 < 2
      \<and> strides base2 ! i2 \<le> op2 ! i2
      \<longrightarrow> Conv2DTranspose_init idf f ks ss p (Some v) df dr ub =
            Inl (ValueError Stride_must_be_greater_than_output_padding))
   \<and> (Conv3D_init idf f ks ss p df (SeqArg [1, 1, 1]) ub = Inr base3
      \<and> normalize_tuple v 3 = Inr op3 \<and> i3 < 3 \<and> strides base3 ! i3 \<le> op3 ! i3
      \<longrightarrow> Conv3DTranspose_init idf f ks ss p (Some v) df ub =
            Inl (ValueError Stride_must_be_greater_than_output_padding))
   \<and> (Conv2DTranspose_init idf f ks ss p (Some v) df dr ub = Inr t2
      \<longrightarrow> (\<exists>op. output_padding t2 = Some op \<and> length op = 2 \<and> length (strides t2) = 2
                \<and> (\<forall>i<2. op ! i < strides t2 ! i)))
   \<and> (Conv3DTranspose_init idf f ks ss p (Some v) df ub = Inr t3
      \<longrightarrow> (\<exists>op. output_padding t3 = Some op \<and> length op = 3 \<and> length (strides t3) = 3
                \<and> (\<forall>i<3. op ! i < strides t3 ! i)))
   \<and> Conv2DTranspose_init idf f ks ss p None df dr ub =
        and_then (Conv2D_init idf f ks ss p df dr ub)
          (\<lambda>base. Inr (conv_layer.extend base \<lparr> output_padding = None \<rparr>))
   \<and> Conv3DTranspose_init idf f ks ss p None df ub =
        and_then (Conv3D_init idf f ks ss p df (SeqArg [1, 1, 1]) ub)
          (\<lambda>base. Inr (conv_layer.extend base \<lparr> output_padding = None \<rparr>))
   \<and> Conv2DTranspose_init idf f ks ss p None df dr ub \<noteq>
        Inl (ValueError Stride_must_be_greater_than_output_padding)
   \<and> Conv3DTranspose_init idf f ks ss p None df ub \<noteq>
        Inl (ValueError Stride_must_be_greater_than_output_padding)
   \<and> fst (Conv2DTranspose_build self s) \<noteq>
        Some (ValueError Stride_must_be_greater_than_output_padding)
   \<and> fst (Conv3DTranspose_build self s) \<noteq>
        Some (ValueError Stride_must_be_greater_than_output_padding)
   \<and> Conv2DTranspose_compute_output_shape self s \<noteq>
        Inl (ValueError Stride_must_be_greater_than_output_padding)
   \<and> Conv3DTranspose_compute_output_shape self s \<noteq>
        Inl (ValueError Stride_must_be_greater_than_output_padding)"
proof -
  have a: "Conv2D_init idf f ks ss p df dr ub = Inr base2 \<and> normalize_tuple v 2 = Inr op2
      \<and> i2 < 2 \<and> strides base2 ! i2 \<le> op2 ! i2
      \<longrightarrow> Conv2DTranspose_init idf f ks ss p (Some v) df dr ub =
            Inl (ValueError Stride_must_be_greater_than_output_padding)"
    by (auto simp: conv2d_transpose_init_Some)
  have b: "Conv3D_init idf f ks ss p df (SeqArg [1, 1, 1]) ub = Inr base3
      \<and> normalize_tuple v 3 = Inr op3 \<and> i3 < 3 \<and> strides base3 ! i3 \<le> op3 ! i3
      \<longrightarrow> Conv3DTranspose_init idf f ks ss p (Some v) df ub =
            Inl (ValueError Stride_must_be_greater_than_output_padding)"
    by (auto simp: conv3d_transpose_init_Some)
  show ?thesis
    using a b conv2d_transpose_init_Inr [of idf f ks ss p v df dr ub t2]
      conv3d_transpose_init_Inr [of idf f ks ss p v df ub t3]
      transposed_init_None(1) [of idf f ks ss p df dr ub]
      transposed_init_None(2) [of idf f ks ss p df ub]
      transposed_init_None_no_stride_error(1) [of idf f ks ss p df dr ub]
      transposed_init_None_no_stride_error(2) [of idf f ks ss p df ub]
      transposed_build_no_stride_error [of 4 self s]
      transposed_build_no_stride_error [of 5 self s]
      conv2d_transpose_shape_no_stride_error [of self s]
      conv3d_transpose_shape_no_stride_error [of self s]
    unfolding Conv2DTranspose_build_def Conv3DTranspose_build_def
    by blast
qed

theorem output_padding_checked_at_construction_witness:
  "Conv2DTranspose_init channels_last (Some 16) (SeqArg [3, 3]) (SeqArg [2, 2]) ''same''
       (Some (SeqArg [1, 2])) None (SeqArg [1, 1]) True =
     Inl (ValueError Stride_must_be_greater_than_output_padding)
   \<and> Conv3DTranspose_init channels_first (Some 4) (SeqArg [3, 3, 3]) (SeqArg [2, 2, 2])
       ''valid'' (Some (SeqArg [2, 0, 0])) None False =
     Inl (ValueError Stride_must_be_greater_than_output_padding)"
proof -
  have h2: "Conv2D_init channels_last (Some 16) (SeqArg [3, 3]) (SeqArg [2, 2]) ''same'' None
         (SeqArg [1, 1]) True = Inr (conv_layer.truncate conv2d_transpose_literal)
      \<and> normalize_tuple (SeqArg [1, 2]) 2 = Inr [1, 2] \<and> (1::nat) < 2
      \<and> strides (conv_layer.truncate conv2d_transpose_literal) ! 1 \<le> [1, 2] ! 1"
    by (simp add: Conv2D_init_def Conv_init_def normalize_tuple_def normalize_padding_def
        normalize_data_format_def lower_char_def conv2d_transpose_literal_def
        conv_layer.defs)
  have h3: "Conv3D_init channels_first (Some 4) (SeqArg [3, 3, 3]) (SeqArg [2, 2, 2])
         ''valid'' None (SeqArg [1, 1, 1]) False =
         Inr (conv_layer.truncate (conv3d_transpose_literal\<lparr>output_padding := None\<rparr>))
      \<and> normalize_tuple (SeqArg [2, 0, 0]) 3 = Inr [2, 0, 0] \<and> (0::nat) < 3
      \<and> strides (conv_layer.truncate (conv3d_transpose_literal\<lparr>output_padding := None\<rparr>)) ! 0
           \<le> [2, 0, 0] ! 0"
    by (simp add: Conv3D_init_def Conv_init_def normalize_tuple_def normalize_padding_def
        normalize_data_format_def lower_char_def conv3d_transpose_literal_def
        conv_layer.defs)
  from h2 h3 show ?thesis
    using
      output_padding_checked_at_construction
        [where idf = channels_last and f = "Some 16" and ks = "SeqArg [3, 3]"
           and ss = "SeqArg [2, 2]" and p = "''same''" and v = "SeqArg [1, 2]" and df = None
           and dr = "SeqArg [1, 1]" and ub = True and ?op2.0 = "[1, 2]" and ?i2.0 = 1
           and ?base2.0 = "conv_layer.truncate conv2d_transpose_literal"]
      output_padding_checked_at_construction
        [where idf = channels_first and f = "Some 4" and ks = "SeqArg [3, 3, 3]"
           and ss = "SeqArg [2, 2, 2]" and p = "''valid''" and v = "SeqArg [2, 0, 0]"
           and df = None and ub = False and ?op3.0 = "[2, 0, 0]" and ?i3.0 = 0
           and ?base3.0 =
             "conv_layer.truncate (conv3d_transpose_literal\<lparr>output_padding := None\<rparr>)"]
    by blast
qed

subsection \<open>Depthwise convolution\<close>

lemma depthwise_build_ok:
  assumes "kernel_size self = [kh, kw]" and "4 \<le> length s"
    and "getitem s (if data_format self = channels_first then 1 else 3) = Inr (Some c)"
  shows "DepthwiseConv2D_build self s =
     (None, self\<lparr> weights := weights self @
                      (''depthwise_kernel'', [Some kh, Some kw, Some c, Some (depth_multiplier self)]) #
                      (if use_bias self then [(''bias'', [Some (c * depth_multiplier self)])] else []),
                  built := True,
                  input_spec := \<lparr> ndim = 4, axes =
                     [(if data_format self = channels_first then 1 else 3, c)] \<rparr>,
                  bias := (if use_bias self then Some [Some (c * depth_multiplier self)] else None),
                  depthwise_kernel := Some [Some kh, Some kw, Some c, Some (depth_multiplier self)] \<rparr>)"
  using assms by (simp add: DepthwiseConv2D_build_def add_weight_def Let_def getitem_def)

lemma conv_new_space_length:
  "conv_new_space self sp i ns = Inr r \<Longrightarrow> length r = length ns + (length sp - i)"
proof (induction self sp i ns rule: conv_new_space.induct)
  case (1 self space i new_space)
  show ?case
  proof (cases "i < length space")
    case True
    with "1.prems" obtain space_i k s d new_dim where
      "getitem space (int i) = Inr space_i" "getitem (kernel_size self) (int i) = Inr k"
      "getitem (strides self) (int i) = Inr s" "getitem (dilation_rate self) (int i) = Inr d"
      "conv_output_length space_i k (padding self) s d = Inr new_dim"
      "conv_new_space self space (i + 1) (new_space @ [new_dim]) = Inr r"
      by (subst (asm) conv_new_space.simps) (auto simp: and_then_Inr_iff)
    with "1.IH" [OF True] True show ?thesis by fastforce
  next
    case False
    with "1.prems" show ?thesis by (subst (asm) conv_new_space.simps) simp
  qed
qed

lemma conv_output_length_ok:
  "stride \<noteq> 0 \<Longrightarrow> \<exists>d. conv_output_length n k p stride dl = Inr d"
  by (simp add: conv_output_length_def Let_def split: option.splits)

lemma conv_new_space_ok:
  assumes "length sp \<le> length (kernel_size self)" "length sp \<le> length (strides self)"
    "length sp \<le> length (dilation_rate self)" "0 \<notin> set (strides self)"
  shows "\<exists>r. conv_new_space self sp i ns = Inr r"
  using assms
proof (induction self sp i ns rule: conv_new_space.induct)
  case (1 self space i new_space)
  show ?case
  proof (cases "i < length space")
    case True
    then have "strides self ! i \<noteq> 0"
      using "1.prems" by (metis nth_mem order_less_le_trans)
    then obtain d where d: "conv_output_length (space ! i) (kernel_size self ! i) (padding self)
         (strides self ! i) (dilation_rate self ! i) = Inr d"
      using conv_output_length_ok by blast
    have g: "getitem space (int i) = Inr (space ! i)"
      "getitem (kernel_size self) (int i) = Inr (kernel_size self ! i)"
      "getitem (strides self) (int i) = Inr (strides self ! i)"
      "getitem (dilation_rate self) (int i) = Inr (dilation_rate self ! i)"
      using True "1.prems" by (simp_all add: getitem_nat)
    from "1.IH" [OF True g d] "1.prems"
    obtain r where "conv_new_space self space (i + 1) (new_space @ [d]) = Inr r" by blast
    then show ?thesis
      using True g d by (subst conv_new_space.simps) simp
  next
    case False
    then show ?thesis by (subst conv_new_space.simps) simp
  qed
qed

lemma depthwise_shape_channels:
  assumes "length s = 4"
    and "getitem s (if data_format self = channels_first then 1 else 3) = Inr (Some c)"
    and "DepthwiseConv2D_compute_output_shape self s = Inr out"
  shows "length out = 4 \<and>
     getitem out (if data_format self = channels_first then 1 else 3) =
       Inr (Some (c * depth_multiplier self))"
  using assms
  by (cases "data_format self")
    (auto simp: DepthwiseConv2D_compute_output_shape_def Let_def and_then_Inr_iff mul_dim_def
      getitem_def split: if_splits option.splits)

lemma depthwise_shape_ok:
  assumes "length s = 4"
    and "getitem s (if data_format self = channels_first then 1 else 3) = Inr (Some c)"
    and "length (kernel_size self) = 2" "length (strides self) = 2"
    "length (dilation_rate self) = 2" "0 \<notin> set (strides self)"
  shows "\<exists>out. DepthwiseConv2D_compute_output_shape self s = Inr out"
proof -
  let ?space = "if data_format self = channels_last then butlast (tl s) else drop 2 s"
  have len: "length ?space = 2" using assms(1) by simp
  then obtain r where r: "conv_new_space self ?space 0 [] = Inr r"
    using conv_new_space_ok [of ?space self 0 "[]"] assms by auto
  have "length r = 2" using conv_new_space_length [OF r] len by simp
  then show ?thesis
    using r assms(1,2)
    by (cases "data_format self")
      (auto simp: DepthwiseConv2D_compute_output_shape_def Let_def mul_dim_def getitem_def)
qed

lemma depthwise_init_fields:
  assumes "DepthwiseConv2D_init idf ks ss p m df dr ub = Inr d"
  shows "filters d = None" "pointwise_kernel d = None" "depthwise_kernel d = None"
    "kernel d = None" "weights d = []" "depth_multiplier d = m"
    "length (kernel_size d) = 2" "length (strides d) = 2" "length (dilation_rate d) = 2"
proof -
  from assms obtain base where b: "Conv_init idf 2 None ks ss p df dr ub = Inr base"
    and d: "d = conv_layer.extend base
              \<lparr> depth_multiplier = m, depthwise_kernel = None, pointwise_kernel = None \<rparr>"
    by (auto simp: DepthwiseConv2D_init_def Conv2D_init_def and_then_Inr_iff)
  show "filters d = None" "pointwise_kernel d = None" "depthwise_kernel d = None"
    "kernel d = None" "weights d = []" "depth_multiplier d = m"
    "length (kernel_size d) = 2" "length (strides d) = 2" "length (dilation_rate d) = 2"
    using Conv_init_fields [OF b] by (simp_all add: d conv_layer.defs)
qed

text \<open>
  C6. A \<open>DepthwiseConv2D\<close> with kernel size \<open>(kh, kw)\<close> and depth multiplier \<open>m\<close>,
  built on an input of rank 4 with the known channel count \<open>c\<close>, requests the depthwise
  kernel \<open>(kh, kw, c, m)\<close> and, when \<open>use_bias\<close> holds, a bias of shape \<open>(c * m,)\<close>,
  and nothing else: no pointwise kernel and no kernel is assigned, and the constructor
  leaves \<open>filters\<close> at \<open>None\<close>. Every output shape it computes for that input has
  \<open>c * m\<close> at the channel position, and it does compute one when the strides are not
  zero.
\<close>

theorem depthwise_channel_arithmetic:
  fixes self :: "'a depth_conv_layer_scheme"
  shows
  "(kernel_size self = [kh, kw] \<and> length s = 4
      \<and> getitem s (if data_format self = channels_first then 1 else 3) = Inr (Some c)
      \<longrightarrow> fst (DepthwiseConv2D_build self s) = None
        \<and> weights (snd (DepthwiseConv2D_build self s)) =
            weights self @
              (''depthwise_kernel'', [Some kh, Some kw, Some c, Some (depth_multiplier self)]) #
              (if use_bias self then [(''bias'', [Some (c * depth_multiplier self)])] else [])
        \<and> depthwise_kernel (snd (DepthwiseConv2D_build self s)) =
            Some [Some kh, Some kw, Some c, Some (depth_multiplier self)]
        \<and> pointwise_kernel (snd (DepthwiseConv2D_build self s)) = pointwise_kernel self
        \<and> kernel (snd (DepthwiseConv2D_build self s)) = kernel self
        \<and> (\<forall>out. DepthwiseConv2D_compute_output_shape self s = Inr out
              \<longrightarrow> length out = 4
                \<and> getitem out (if data_format self = channels_first then 1 else 3) =
                    Inr (Some (c * depth_multiplier self)))
        \<and> (length (strides self) = 2 \<and> length (dilation_rate self) = 2
              \<and> 0 \<notin> set (strides self)
              \<longrightarrow> (\<exists>out. DepthwiseConv2D_compute_output_shape self s = Inr out)))
   \<and> (DepthwiseConv2D_init idf ks ss p m df dr ub = Inr d
      \<longrightarrow> filters d = None \<and> pointwise_kernel d = None \<and> kernel d = None \<and> weights d = []
        \<and> depth_multiplier d = m \<and> length (kernel_size d) = 2 \<and> length (strides d) = 2
        \<and> length (dilation_rate d) = 2)"
proof -
  have build: "fst (DepthwiseConv2D_build self s) = None
        \<and> weights (snd (DepthwiseConv2D_build self s)) =
            weights self @
              (''depthwise_kernel'', [Some kh, Some kw, Some c, Some (depth_multiplier self)]) #
              (if use_bias self then [(''bias'', [Some (c * depth_multiplier self)])] else [])
        \<and> depthwise_kernel (snd (DepthwiseConv2D_build self s)) =
            Some [Some kh, Some kw, Some c, Some (depth_multiplier self)]
        \<and> pointwise_kernel (snd (DepthwiseConv2D_build self s)) = pointwise_kernel self
        \<and> kernel (snd (DepthwiseConv2D_build self s)) = kernel self"
    if "kernel_size self = [kh, kw]" "length s = 4"
      "getitem s (if data_format self = channels_first then 1 else 3) = Inr (Some c)"
    using that by (simp add: depthwise_build_ok)
  have shape: "length out = 4
        \<and> getitem out (if data_format self = channels_first then 1 else 3) =
            Inr (Some (c * depth_multiplier self))"
    if "length s = 4"
      "getitem s (if data_format self = channels_first then 1 else 3) = Inr (Some c)"
      "DepthwiseConv2D_compute_output_shape self s = Inr out" for out
    using that by (rule depthwise_shape_channels)
  have ok: "\<exists>out. DepthwiseConv2D_compute_output_shape self s = Inr out"
    if "kernel_size self = [kh, kw]" "length s = 4"
      "getitem s (if data_format self = channels_first then 1 else 3) = Inr (Some c)"
      "length (strides self) = 2" "length (dilation_rate self) = 2" "0 \<notin> set (strides self)"
    using that depthwise_shape_ok [of s self c] by simp
  show ?thesis
    using build shape ok depthwise_init_fields [of idf ks ss p m df dr ub d]
    by blast
qed

theorem depthwise_channel_arithmetic_witness:
  "DepthwiseConv2D_init channels_last (SeqArg [3, 5]) (SeqArg [1, 1]) ''valid'' 4 None
       (SeqArg [1, 1]) True = Inr depthwise_literal
   \<and> filters depthwise_literal = None
   \<and> fst (DepthwiseConv2D_build depthwise_literal [None, Some 9, Some 9, Some 3]) = None
   \<and> weights (snd (DepthwiseConv2D_build depthwise_literal [None, Some 9, Some 9, Some 3])) =
        [(''depthwise_kernel'', [Some 3, Some 5, Some 3, Some 4]), (''bias'', [Some 12])]
   \<and> pointwise_kernel (snd (DepthwiseConv2D_build depthwise_literal
                              [None, Some 9, Some 9, Some 3])) = None
   \<and> DepthwiseConv2D_compute_output_shape depthwise_literal [None, Some 9, Some 9, Some 3] =
        Inr [None, Some 7, Some 5, Some 12]"
proof -
  have init: "DepthwiseConv2D_init channels_last (SeqArg [3, 5]) (SeqArg [1, 1]) ''valid'' 4
       None (SeqArg [1, 1]) True = Inr depthwise_literal"
    by (simp add: DepthwiseConv2D_init_def Conv2D_init_def Conv_init_def normalize_tuple_def
        normalize_padding_def normalize_data_format_def lower_char_def depthwise_literal_def
        conv_layer.defs)
  have hyp: "kernel_size depthwise_literal = [3, 5]
      \<and> length [None, Some 9, Some 9, Some (3::int)] = 4
      \<and> getitem [None, Some 9, Some 9, Some (3::int)]
           (if data_format depthwise_literal = channels_first then 1 else 3) = Inr (Some 3)"
    by (simp add: depthwise_literal_def getitem_def)
  have shape: "DepthwiseConv2D_compute_output_shape depthwise_literal
       [None, Some 9, Some 9, Some 3] = Inr [None, Some 7, Some 5, Some 12]"
    by (simp add: DepthwiseConv2D_compute_output_shape_def depthwise_literal_def
        conv_new_space.simps getitem_def conv_output_length_def mul_dim_def)
  show ?thesis
    using init hyp shape
      depthwise_channel_arithmetic [where self = depthwise_literal and kh = 3 and kw = 5
        and s = "[None, Some 9, Some 9, Some 3]" and c = 3 and d = depthwise_literal
        and idf = channels_last and ks = "SeqArg [3, 5]" and ss = "SeqArg [1, 1]"
        and p = "''valid''" and m = 4 and df = None and dr = "SeqArg [1, 1]" and ub = True]
    by (simp add: depthwise_literal_def)
qed

subsection \<open>Upsampling, zero padding and cropping\<close>

lemma for_dim_in_range_eq:
  assumes "length out \<le> length all_dims" "dim \<le> length out"
  shows "for_dim_in_range f all_dims dim out =
     Inr (take dim out @
          map2 (\<lambda>d a. map_option (\<lambda>n. f n a) d) (drop dim out) (drop dim all_dims))"
  using assms
proof (induction f all_dims dim out rule: for_dim_in_range.induct)
  case (1 f all_dims dim out)
  show ?case
  proof (cases "dim < length out")
    case False
    with "1.prems" show ?thesis by (subst for_dim_in_range.simps) simp
  next
    case True
    then have da: "dim < length all_dims" using "1.prems" by simp
    have split_out: "drop dim out = out ! dim # drop (Suc dim) out"
      using True by (simp add: Cons_nth_drop_Suc)
    have split_all: "drop dim all_dims = all_dims ! dim # drop (Suc dim) all_dims"
      using da by (simp add: Cons_nth_drop_Suc)
    show ?thesis
    proof (cases "out ! dim")
      case None
      have "for_dim_in_range f all_dims dim out = for_dim_in_range f all_dims (dim + 1) out"
        using True None by (subst for_dim_in_range.simps) simp
      also have "\<dots> = Inr (take (dim + 1) out @
          map2 (\<lambda>d a. map_option (\<lambda>n. f n a) d) (drop (dim + 1) out) (drop (dim + 1) all_dims))"
        using "1.IH"(1) [OF True None] "1.prems" True by simp
      finally show ?thesis
        using True None by (simp add: split_out split_all take_Suc_conv_app_nth)
    next
      case (Some d)
      let ?out = "out[dim := Some (f d (all_dims ! dim))]"
      have g: "getitem all_dims (int dim) = Inr (all_dims ! dim)"
        using da by (simp add: getitem_nat)
      have "for_dim_in_range f all_dims dim out = for_dim_in_range f all_dims (dim + 1) ?out"
        using True Some g by (subst for_dim_in_range.simps) simp
      also have "\<dots> = Inr (take (dim + 1) ?out @
          map2 (\<lambda>d a. map_option (\<lambda>n. f n a) d) (drop (dim + 1) ?out) (drop (dim + 1) all_dims))"
        using "1.IH"(2) [OF True Some g] "1.prems" True by simp
      finally show ?thesis
        using True Some
        by (simp add: split_out split_all take_Suc_conv_app_nth)
    qed
  qed
qed

lemma for_dim_in_range_0:
  assumes "length out \<le> length all_dims"
  shows "for_dim_in_range f all_dims 0 out =
     Inr (map2 (\<lambda>d a. map_option (\<lambda>n. f n a) d) out all_dims)"
  using for_dim_in_range_eq [OF assms, of 0 f] by simp

lemma getitems_in_range:
  "\<forall>i \<in> set is. i < length xs \<Longrightarrow> getitems xs is = Inr (map ((!) xs) is)"
  by (induction "is") (simp_all add: getitem_nat)

lemma middle_by_index:
  "map ((!) (x # mid @ [y])) [1 ..< 1 + length mid] = mid"
proof (rule nth_equalityI)
  show "length (map ((!) (x # mid @ [y])) [1 ..< 1 + length mid]) = length mid"
    by (simp del: upt_Suc)
next
  fix i
  assume "i < length (map ((!) (x # mid @ [y])) [1 ..< 1 + length mid])"
  then have i: "i < length mid" by (simp del: upt_Suc)
  then have "[1 ..< 1 + length mid] ! i = 1 + i"
    by (intro nth_upt) simp
  then have "map ((!) (x # mid @ [y])) [1 ..< 1 + length mid] ! i = (x # mid @ [y]) ! (1 + i)"
    using i by (subst nth_map) simp_all
  also have "\<dots> = mid ! i"
    using i by (simp add: nth_append)
  finally show "map ((!) (x # mid @ [y])) [1 ..< 1 + length mid] ! i = mid ! i" .
qed

lemma transpose_shape_last: "transpose_shape xs channels_last ax = Inr xs"
  by (simp add: transpose_shape_def)

lemma transpose_shape_first:
  assumes "mid \<noteq> []"
  shows "transpose_shape ([x] @ mid @ [y]) channels_first [1 ..< 1 + length mid] =
     Inr ([x, y] @ mid)"
proof -
  have ax: "[1 ..< 1 + length mid] = 1 # [Suc 1 ..< 1 + length mid]"
    using assms by (intro upt_conv_Cons) simp
  have "getitems ([x] @ mid @ [y]) [1 ..< 1 + length mid] = Inr mid"
    using getitems_in_range [of "[1 ..< 1 + length mid]" "x # mid @ [y]"]
      middle_by_index [of x mid y]
    by (simp del: upt_Suc)
  moreover have "getitem [1 ..< 1 + length mid] 0 = Inr 1"
    by (subst ax) (simp add: getitem_def del: upt_Suc)
  moreover have "getitem ([x] @ mid @ [y]) (- 1) = Inr y"
    by (simp add: getitem_last)
  ultimately show ?thesis
    by (simp add: transpose_shape_def del: upt_Suc)
qed

lemma spatial_first:
  assumes "length sp = length amounts" "sp \<noteq> []" "\<And>n. f n u = n"
  shows "and_then (transpose_shape ([u] @ amounts @ [u]) channels_first [1 ..< 1 + length amounts])
           (\<lambda>all_dims. for_dim_in_range f all_dims 0 ([b, c] @ sp)) =
         Inr ([b, c] @ map2 (\<lambda>d a. map_option (\<lambda>n. f n a) d) sp amounts)"
proof -
  have "amounts \<noteq> []" using assms(1,2) by auto
  then have t: "transpose_shape ([u] @ amounts @ [u]) channels_first [1 ..< 1 + length amounts] =
      Inr ([u, u] @ amounts)"
    by (rule transpose_shape_first)
  have "for_dim_in_range f ([u, u] @ amounts) 0 ([b, c] @ sp) =
      Inr (map2 (\<lambda>d a. map_option (\<lambda>n. f n a) d) ([b, c] @ sp) ([u, u] @ amounts))"
    using assms(1) by (intro for_dim_in_range_0) simp
  then show ?thesis
    unfolding t by (simp add: assms(3) option.map_ident)
qed

lemma spatial_last:
  assumes "length sp = length amounts" "\<And>n. f n u = n"
  shows "and_then (transpose_shape ([u] @ amounts @ [u]) channels_last ax)
           (\<lambda>all_dims. for_dim_in_range f all_dims 0 ([b] @ sp @ [c])) =
         Inr ([b] @ map2 (\<lambda>d a. map_option (\<lambda>n. f n a) d) sp amounts @ [c])"
proof -
  have "for_dim_in_range f ([u] @ amounts @ [u]) 0 ([b] @ sp @ [c]) =
      Inr (map2 (\<lambda>d a. map_option (\<lambda>n. f n a) d) ([b] @ sp @ [c]) ([u] @ amounts @ [u]))"
    using assms(1) by (intro for_dim_in_range_0) simp
  then show ?thesis
    using assms(1) by (simp add: transpose_shape_last assms(2) option.map_ident)
qed

lemma upsampling_shape:
  assumes "rank self = length (size_up self)" "length sp = length (size_up self)" "sp \<noteq> []"
  shows "UpSampling_compute_output_shape self
           (if data_format self = channels_first then [b, c] @ sp else [b] @ sp @ [c]) =
         Inr (if data_format self = channels_first
              then [b, c] @ map2 (\<lambda>d s. map_option (\<lambda>n. n * s) d) sp (size_up self)
              else [b] @ map2 (\<lambda>d s. map_option (\<lambda>n. n * s) d) sp (size_up self) @ [c])"
proof (cases "data_format self")
  case channels_first
  then show ?thesis
    using spatial_first [of sp "size_up self" "\<lambda>d s. d * s" 1 b c] assms
    by (simp add: UpSampling_compute_output_shape_def del: upt_Suc)
next
  case channels_last
  then show ?thesis
    using spatial_last [of sp "size_up self" "\<lambda>d s. d * s" 1 "[1 ..< 1 + rank self]" b c] assms
    by (simp add: UpSampling_compute_output_shape_def del: upt_Suc)
qed

lemma zero_padding_shape:
  assumes "rank self = length (zero_padding self)" "length sp = length (zero_padding self)"
    "sp \<noteq> []"
  shows "ZeroPadding_compute_output_shape self
           (if data_format self = channels_first then [b, c] @ sp else [b] @ sp @ [c]) =
         Inr (if data_format self = channels_first
              then [b, c] @ map2 (\<lambda>d p. map_option (\<lambda>n. n + sum_list p) d) sp (zero_padding self)
              else [b] @ map2 (\<lambda>d p. map_option (\<lambda>n. n + sum_list p) d) sp (zero_padding self)
                   @ [c])"
proof (cases "data_format self")
  case channels_first
  then show ?thesis
    using spatial_first [of sp "zero_padding self" "\<lambda>d p. d + sum_list p" "[0, 0]" b c] assms
    by (simp add: ZeroPadding_compute_output_shape_def del: upt_Suc)
next
  case channels_last
  then show ?thesis
    using spatial_last [of sp "zero_padding self" "\<lambda>d p. d + sum_list p" "[0, 0]"
        "[1 ..< 1 + rank self]" b c] assms
    by (simp add: ZeroPadding_compute_output_shape_def del: upt_Suc)
qed

lemma cropping_shape:
  assumes "rank self = length (cropping self)" "length sp = length (cropping self)"
    "sp \<noteq> []"
  shows "Cropping_compute_output_shape self
           (if data_format self = channels_first then [b, c] @ sp else [b] @ sp @ [c]) =
         Inr (if data_format self = channels_first
              then [b, c] @ map2 (\<lambda>d p. map_option (\<lambda>n. n - sum_list p) d) sp (cropping self)
              else [b] @ map2 (\<lambda>d p. map_option (\<lambda>n. n - sum_list p) d) sp (cropping self)
                   @ [c])"
proof (cases "data_format self")
  case channels_first
  then show ?thesis
    using spatial_first [of sp "cropping self" "\<lambda>d p. d - sum_list p" "[0, 0]" b c] assms
    by (simp add: Cropping_compute_output_shape_def del: upt_Suc)
next
  case channels_last
  then show ?thesis
    using spatial_last [of sp "cropping self" "\<lambda>d p. d - sum_list p" "[0, 0]"
        "[1 ..< 1 + rank self]" b c] assms
    by (simp add: Cropping_compute_output_shape_def del: upt_Suc)
qed

lemma map_option_case:
  "map_option f d = (case d of None \<Rightarrow> None | Some n \<Rightarrow> Some (f n))"
  by (cases d) simp_all

lemma map2_nth:
  "i < length xs \<Longrightarrow> length xs = length ys \<Longrightarrow> map2 g xs ys ! i = g (xs ! i) (ys ! i)"
  by simp

definition upsampling_literal :: upsampling_layer where
  "upsampling_literal =
     \<lparr> weights = [], built = False, rank = 2, data_format = channels_first,
       input_spec = \<lparr> ndim = 4, axes = [] \<rparr>, size_up = [2, 3] \<rparr>"

definition zero_padding_literal :: zero_padding_layer where
  "zero_padding_literal =
     \<lparr> weights = [], built = False, rank = 2, data_format = channels_last,
       input_spec = \<lparr> ndim = 4, axes = [] \<rparr>, zero_padding = [[1, 2], [3, 4]] \<rparr>"

definition cropping_literal :: cropping_layer where
  "cropping_literal =
     \<lparr> weights = [], built = False, rank = 3, data_format = channels_first,
       input_spec = \<lparr> ndim = 5, axes = [] \<rparr>, cropping = [[1, 1], [2, 0], [0, 3]] \<rparr>"

lemma normalize_entries_length: "normalize_entries vs = Inr ps \<Longrightarrow> length ps = length vs"
  by (induction vs arbitrary: ps) (auto simp: and_then_Inr_iff)

lemma normalize_nested_length: "normalize_nested n v = Inr ps \<Longrightarrow> length ps = n"
  by (auto simp: normalize_nested_def split: nested_arg.splits if_splits
      dest: normalize_entries_length)

lemma upsampling_constructed:
  assumes "UpSampling1D_init idf k = Inr u \<or> UpSampling2D_init idf sz df ip = Inr u
      \<or> UpSampling3D_init idf sz df = Inr u"
  shows "rank u = length (size_up u) \<and> 0 < rank u"
  using assms
  by (auto simp: UpSampling1D_init_def UpSampling2D_init_def UpSampling3D_init_def
      UpSampling_init_def and_then_Inr_iff split: if_splits dest!: normalize_tuple_length)

lemma zero_padding_constructed:
  assumes "ZeroPadding1D_init idf ta = Inr z \<or> ZeroPadding2D_init idf na df = Inr z
      \<or> ZeroPadding3D_init idf na df = Inr z"
  shows "rank z = length (zero_padding z) \<and> 0 < rank z"
  using assms
  by (auto simp: ZeroPadding1D_init_def ZeroPadding2D_init_def ZeroPadding3D_init_def
      ZeroPadding_init_def and_then_Inr_iff dest!: normalize_nested_length)

lemma cropping_constructed:
  assumes "Cropping1D_init idf ta = Inr cr \<or> Cropping2D_init idf na df = Inr cr
      \<or> Cropping3D_init idf na df = Inr cr"
  shows "rank cr = length (cropping cr) \<and> 0 < rank cr"
  using assms
  by (auto simp: Cropping1D_init_def Cropping2D_init_def Cropping3D_init_def
      Cropping_init_def and_then_Inr_iff dest!: normalize_nested_length)

text \<open>
  C7. Every \<open>UpSampling\<close>, \<open>ZeroPadding\<close> or \<open>Cropping\<close> layer that a constructor
  returns has as many amounts as its rank \<open>r\<close>, and \<open>r \<ge> 1\<close>. Such a layer, on an
  input shape of \<open>r + 2\<close> entries, written as batch \<open>b\<close>, spatial entries \<open>sp\<close> and channel \<open>c\<close> in the
  order of the layer's data format, returns a shape and no error. The batch and channel
  entries are returned as they are; a spatial entry that is \<open>None\<close> is \<open>None\<close> in the
  output, whatever the amounts; a spatial entry \<open>n\<close> becomes \<open>n * size\<close>,
  \<open>n + sum(padding)\<close> or \<open>n - sum(cropping)\<close> of its axis.
\<close>

theorem spatial_layers_output_shape:
  fixes up :: "'a upsampling_layer_scheme" and zp :: "'b zero_padding_layer_scheme"
    and cr :: "'c cropping_layer_scheme"
  shows
  "(rank up = length (size_up up) \<and> length sp = length (size_up up) \<and> sp \<noteq> []
      \<longrightarrow> UpSampling_compute_output_shape up
            (if data_format up = channels_first then [b, c] @ sp else [b] @ sp @ [c]) =
          Inr (if data_format up = channels_first
               then [b, c] @ map2 (\<lambda>d s. case d of None \<Rightarrow> None | Some n \<Rightarrow> Some (n * s))
                                sp (size_up up)
               else [b] @ map2 (\<lambda>d s. case d of None \<Rightarrow> None | Some n \<Rightarrow> Some (n * s))
                            sp (size_up up) @ [c]))
   \<and> (rank zp = length (zero_padding zp) \<and> length sp = length (zero_padding zp) \<and> sp \<noteq> []
      \<longrightarrow> ZeroPadding_compute_output_shape zp
            (if data_format zp = channels_first then [b, c] @ sp else [b] @ sp @ [c]) =
          Inr (if data_format zp = channels_first
               then [b, c] @ map2 (\<lambda>d p. case d of None \<Rightarrow> None
                                            | Some n \<Rightarrow> Some (n + sum_list p))
                                sp (zero_padding zp)
               else [b] @ map2 (\<lambda>d p. case d of None \<Rightarrow> None
                                        | Some n \<Rightarrow> Some (n + sum_list p))
                            sp (zero_padding zp) @ [c]))
   \<and> (rank cr = length (cropping cr) \<and> length sp = length (cropping cr) \<and> sp \<noteq> []
      \<longrightarrow> Cropping_compute_output_shape cr
            (if data_format cr = channels_first then [b, c] @ sp else [b] @ sp @ [c]) =
          Inr (if data_format cr = channels_first
               then [b, c] @ map2 (\<lambda>d p. case d of None \<Rightarrow> None
                                            | Some n \<Rightarrow> Some (n - sum_list p))
                                sp (cropping cr)
               else [b] @ map2 (\<lambda>d p. case d of None \<Rightarrow> None
                                        | Some n \<Rightarrow> Some (n - sum_list p))
                            sp (cropping cr) @ [c]))
   \<and> (UpSampling1D_init idf k = Inr up' \<or> UpSampling2D_init idf sz df ip = Inr up'
        \<or> UpSampling3D_init idf sz df = Inr up'
      \<longrightarrow> rank up' = length (size_up up') \<and> 0 < rank up')
   \<and> (ZeroPadding1D_init idf ta = Inr zp' \<or> ZeroPadding2D_init idf na df = Inr zp'
        \<or> ZeroPadding3D_init idf na df = Inr zp'
      \<longrightarrow> rank zp' = length (zero_padding zp') \<and> 0 < rank zp')
   \<and> (Cropping1D_init idf ta = Inr cr' \<or> Cropping2D_init idf na df = Inr cr'
        \<or> Cropping3D_init idf na df = Inr cr'
      \<longrightarrow> rank cr' = length (cropping cr') \<and> 0 < rank cr')"
  using upsampling_shape [of up sp b c] zero_padding_shape [of zp sp b c]
    cropping_shape [of cr sp b c] upsampling_constructed [of idf k up' sz df ip]
    zero_padding_constructed [of idf ta zp' na df] cropping_constructed [of idf ta cr' na df]
  unfolding map_option_case by blast

theorem spatial_layers_output_shape_witness:
  "UpSampling2D_init channels_first (SeqArg [2, 3]) None ''nearest'' = Inr upsampling_literal
   \<and> ZeroPadding2D_init channels_last (NestedSeq [SeqArg [1, 2], SeqArg [3, 4]]) None =
     Inr zero_padding_literal
   \<and> Cropping3D_init channels_first (NestedSeq [IntArg 1, SeqArg [2, 0], SeqArg [0, 3]]) None =
     Inr cropping_literal
   \<and> UpSampling_compute_output_shape upsampling_literal [None, Some 3, None, Some 5] =
     Inr [None, Some 3, None, Some 15]
   \<and> ZeroPadding_compute_output_shape zero_padding_literal [None, Some 10, None, Some 3] =
     Inr [None, Some 13, None, Some 3]
   \<and> Cropping_compute_output_shape cropping_literal [None, None, Some 9, None, Some 7] =
     Inr [None, None, Some 7, None, Some 4]"
proof -
  have constructed:
    "UpSampling2D_init channels_first (SeqArg [2, 3]) None ''nearest'' = Inr upsampling_literal"
    "ZeroPadding2D_init channels_last (NestedSeq [SeqArg [1, 2], SeqArg [3, 4]]) None =
       Inr zero_padding_literal"
    "Cropping3D_init channels_first (NestedSeq [IntArg 1, SeqArg [2, 0], SeqArg [0, 3]]) None =
       Inr cropping_literal"
    by (simp_all add: UpSampling2D_init_def UpSampling_init_def ZeroPadding2D_init_def
        ZeroPadding_init_def Cropping3D_init_def Cropping_init_def normalize_nested_def
        normalize_tuple_def normalize_data_format_def upsampling_literal_def
        zero_padding_literal_def cropping_literal_def numeral_2_eq_2)
  show ?thesis
    using constructed
      spatial_layers_output_shape [where up = upsampling_literal and sp = "[None, Some 5]"
        and b = None and c = "Some 3" and zp = zero_padding_literal and cr = cropping_literal
        and up' = upsampling_literal and zp' = zero_padding_literal
        and cr' = cropping_literal and idf = channels_first and sz = "SeqArg [2, 3]"
        and df = None and ip = "''nearest''"]
      spatial_layers_output_shape [where up = upsampling_literal and sp = "[Some 10, None]"
        and b = None and c = "Some 3" and zp = zero_padding_literal and cr = cropping_literal]
      spatial_layers_output_shape [where up = upsampling_literal
        and sp = "[Some 9, None, Some 7]" and b = None and c = None
        and zp = zero_padding_literal and cr = cropping_literal]
    by (simp add: upsampling_literal_def zero_padding_literal_def cropping_literal_def)
qed

subsection \<open>Cropping more than there is\<close>

definition zero_padding1d_literal :: zero_padding_layer where
  "zero_padding1d_literal =
     \<lparr> weights = [], built = False, rank = 1, data_format = channels_last,
       input_spec = \<lparr> ndim = 3, axes = [] \<rparr>, zero_padding = [[2, 2]] \<rparr>"

definition cropping1d_literal :: cropping_layer where
  "cropping1d_literal =
     \<lparr> weights = [], built = False, rank = 1, data_format = channels_last,
       input_spec = \<lparr> ndim = 3, axes = [] \<rparr>, cropping = [[5, 5]] \<rparr>"

text \<open>
  C2, as stated, fails. The example of the spec: \<open>ZeroPadding1D\<close> with padding (2, 2)
  turns a spatial size of 4 into 8, and \<open>Cropping1D\<close> with cropping (5, 5) on that shape
  returns the spatial size \<open>-2\<close>: \<open>compute_output_shape\<close> raises nothing.
\<close>

theorem cropping_negative_size_counterexample:
  "ZeroPadding1D_init channels_last (SeqArg [2, 2]) = Inr zero_padding1d_literal
   \<and> Cropping1D_init channels_last (SeqArg [5, 5]) = Inr cropping1d_literal
   \<and> ZeroPadding_compute_output_shape zero_padding1d_literal [None, Some 4, Some 3] =
       Inr [None, Some 8, Some 3]
   \<and> Cropping_compute_output_shape cropping1d_literal [None, Some 8, Some 3] =
       Inr [None, Some (- 2), Some 3]"
  by (simp add: ZeroPadding1D_init_def Cropping1D_init_def ZeroPadding_init_def Cropping_init_def
      normalize_tuple_def normalize_data_format_def zero_padding1d_literal_def
      cropping1d_literal_def ZeroPadding_compute_output_shape_def
      Cropping_compute_output_shape_def transpose_shape_def for_dim_in_range.simps getitem_def)

lemma cropping_init_ok:
  "Cropping1D_init idf (SeqArg [before, after]) =
     Inr \<lparr> weights = [], built = False, rank = 1, data_format = channels_last,
           input_spec = \<lparr> ndim = 3, axes = [] \<rparr>, cropping = [[before, after]] \<rparr>"
  "normalize_data_format idf df = Inr l \<Longrightarrow>
   Cropping2D_init idf (NestedSeq [SeqArg [t1, t2], SeqArg [l1, l2]]) df =
     Inr \<lparr> weights = [], built = False, rank = 2, data_format = l,
           input_spec = \<lparr> ndim = 4, axes = [] \<rparr>,
           cropping = [[t1, t2], [l1, l2]] \<rparr>"
  "normalize_data_format idf df = Inr l \<Longrightarrow>
   Cropping3D_init idf (NestedSeq [SeqArg [a1, a2], SeqArg [b1, b2], SeqArg [c1, c2]]) df =
     Inr \<lparr> weights = [], built = False, rank = 3, data_format = l,
           input_spec = \<lparr> ndim = 5, axes = [] \<rparr>,
           cropping = [[a1, a2], [b1, b2], [c1, c2]] \<rparr>"
  by (simp_all add: Cropping1D_init_def Cropping2D_init_def Cropping3D_init_def Cropping_init_def
      normalize_nested_def normalize_tuple_def normalize_data_format_def)

lemma cropped_entry:
  assumes "length sp = length cs" "i < length sp" "sp ! i = Some n"
  shows "map2 (\<lambda>d p. case d of None \<Rightarrow> None | Some n \<Rightarrow> Some (n - sum_list p)) sp cs ! i =
     Some (n - sum_list (cs ! i))"
  using assms by simp

lemma cropping_shape':
  assumes "rank self = length (cropping self)" "length sp = length (cropping self)"
    "sp \<noteq> []"
  shows "Cropping_compute_output_shape self
           (if data_format self = channels_first then [b, c] @ sp else [b] @ sp @ [c]) =
         Inr (if data_format self = channels_first
              then [b, c] @ map2 (\<lambda>d p. case d of None \<Rightarrow> None | Some n \<Rightarrow> Some (n - sum_list p)) sp (cropping self)
              else [b] @ map2 (\<lambda>d p. case d of None \<Rightarrow> None | Some n \<Rightarrow> Some (n - sum_list p)) sp (cropping self)
                   @ [c])"
  using cropping_shape [OF assms, of b c] unfolding map_option_case .

text \<open>
  C2, amended. A \<open>Cropping\<close> layer of rank \<open>r \<ge> 1\<close> on an input shape of \<open>r + 2\<close>
  entries raises no error in \<open>compute_output_shape\<close>: the batch and channel entries are
  returned as they are and every known spatial entry \<open>n\<close> becomes \<open>n - sum(cropping)\<close>
  of its axis, which is a negative entry of the returned shape when the crop amounts add
  up to more than \<open>n\<close>. The constructors accept any integer crop amounts.
\<close>

theorem cropping_returns_negative_sizes:
  fixes cr :: "'a cropping_layer_scheme"
  shows
  "(rank cr = length (cropping cr) \<and> length sp = length (cropping cr) \<and> sp \<noteq> []
      \<longrightarrow> Cropping_compute_output_shape cr
            (if data_format cr = channels_first then [b, c] @ sp else [b] @ sp @ [c]) =
          Inr (if data_format cr = channels_first
               then [b, c] @ map2 (\<lambda>d p. case d of None \<Rightarrow> None
                                            | Some n \<Rightarrow> Some (n - sum_list p))
                                sp (cropping cr)
               else [b] @ map2 (\<lambda>d p. case d of None \<Rightarrow> None
                                        | Some n \<Rightarrow> Some (n - sum_list p))
                            sp (cropping cr) @ [c])
        \<and> (\<forall>i n. i < length sp \<and> sp ! i = Some n \<and> n < sum_list (cropping cr ! i)
              \<longrightarrow> (\<exists>m. m < 0
                    \<and> map2 (\<lambda>d p. case d of None \<Rightarrow> None | Some n \<Rightarrow> Some (n - sum_list p))
                          sp (cropping cr) ! i = Some m)))
   \<and> Cropping1D_init idf (SeqArg [before, after]) =
        Inr \<lparr> weights = [], built = False, rank = 1, data_format = channels_last,
              input_spec = \<lparr> ndim = 3, axes = [] \<rparr>, cropping = [[before, after]] \<rparr>
   \<and> (normalize_data_format idf df = Inr l
      \<longrightarrow> Cropping2D_init idf (NestedSeq [SeqArg [t1, t2], SeqArg [l1, l2]]) df =
            Inr \<lparr> weights = [], built = False, rank = 2, data_format = l,
                  input_spec = \<lparr> ndim = 4, axes = [] \<rparr>,
                  cropping = [[t1, t2], [l1, l2]] \<rparr>
        \<and> Cropping3D_init idf (NestedSeq [SeqArg [a1, a2], SeqArg [b1, b2], SeqArg [c1, c2]]) df =
            Inr \<lparr> weights = [], built = False, rank = 3, data_format = l,
                  input_spec = \<lparr> ndim = 5, axes = [] \<rparr>,
                  cropping = [[a1, a2], [b1, b2], [c1, c2]] \<rparr>)"
proof -
  have neg: "\<exists>m. m < 0
      \<and> map2 (\<lambda>d p. case d of None \<Rightarrow> None | Some n \<Rightarrow> Some (n - sum_list p))
            sp (cropping cr) ! i = Some m"
    if "length sp = length (cropping cr)" "i < length sp" "sp ! i = Some n"
      "n < sum_list (cropping cr ! i)" for i n
    using that cropped_entry [of sp "cropping cr" i n] by simp
  show ?thesis
    using cropping_shape' [of cr sp b c] neg
      cropping_init_ok(1) [of idf before after]
      cropping_init_ok(2) [of idf df l t1 t2 l1 l2]
      cropping_init_ok(3) [of idf df l a1 a2 b1 b2 c1 c2]
    by blast
qed

theorem cropping_returns_negative_sizes_witness:
  "Cropping_compute_output_shape cropping1d_literal [None, Some 8, Some 3] =
     Inr [None, Some (- 2), Some 3]
   \<and> Cropping1D_init channels_last (SeqArg [5, 5]) = Inr cropping1d_literal
   \<and> Cropping2D_init channels_last (NestedSeq [SeqArg [5, 5], SeqArg [0, 9]])
        (Some ''channels_first'') =
     Inr \<lparr> weights = [], built = False, rank = 2, data_format = channels_first,
           input_spec = \<lparr> ndim = 4, axes = [] \<rparr>, cropping = [[5, 5], [0, 9]] \<rparr>"
  using
    cropping_returns_negative_sizes [where cr = cropping1d_literal and sp = "[Some 8]"
      and b = None and c = "Some 3" and idf = channels_last and before = 5 and after = 5
      and df = "Some ''channels_first''" and l = channels_first
      and ?t1.0 = 5 and ?t2.0 = 5 and ?l1.0 = 0 and ?l2.0 = 9]
  by (simp add: cropping1d_literal_def normalize_data_format_def)

subsection \<open>The two data formats\<close>

text \<open>
  The permutation that takes a shape in the channels-last order (batch, spatial...,
  channel) to the channels-first order (batch, channel, spatial...).
\<close>

fun channels_last_to_first :: "'a list \<Rightarrow> 'a list" where
  "channels_last_to_first [] = []"
| "channels_last_to_first (b # rest) = (if rest = [] then [b] else b # last rest # butlast rest)"

lemma channels_last_to_first_snoc [simp]:
  "channels_last_to_first (b # sp @ [c]) = b # c # sp"
  by simp

lemma batch_spatial_channel:
  assumes "2 \<le> length s"
  obtains b sp c where "s = b # sp @ [c]"
proof -
  from assms obtain b rest where s: "s = b # rest"
    by (cases s) auto
  with assms have "rest \<noteq> []" by auto
  then obtain sp c where "rest = sp @ [c]"
    by (cases rest rule: rev_cases) auto
  with s that show thesis by blast
qed

lemma conv_new_space_cong:
  assumes "kernel_size a = kernel_size b" "strides a = strides b"
    "dilation_rate a = dilation_rate b" "padding a = padding b"
  shows "conv_new_space a sp i ns = conv_new_space b sp i ns"
  using assms
proof (induction a sp i ns rule: conv_new_space.induct)
  case (1 self space i new_space)
  show ?case
  proof (cases "i < length space")
    case True
    have step: "conv_new_space self space (Suc i) (new_space @ [d]) =
        conv_new_space b space (Suc i) (new_space @ [d])"
      if "getitem space (int i) = Inr x" "getitem (kernel_size b) (int i) = Inr k"
        "getitem (strides b) (int i) = Inr st" "getitem (dilation_rate b) (int i) = Inr dl"
        "conv_output_length x k (padding b) st dl = Inr d" for x k st dl d
      using "1.IH" [OF True, of x k st dl d] that "1.prems" by simp
    show ?thesis
      apply (subst conv_new_space.simps)
      apply (subst (2) conv_new_space.simps)
      using True "1.prems"
      by (auto intro!: and_then_cong step)
  next
    case False
    then show ?thesis
      by (subst conv_new_space.simps, subst (2) conv_new_space.simps) simp
  qed
qed

lemma conv_layout_symmetry:
  assumes "2 \<le> length s"
  shows "Conv_compute_output_shape (self\<lparr>data_format := channels_first\<rparr>)
           (channels_last_to_first s) =
         map_sum id channels_last_to_first
           (Conv_compute_output_shape (self\<lparr>data_format := channels_last\<rparr>) s)"
proof -
  from assms obtain b sp c where s: "s = b # sp @ [c]" by (rule batch_spatial_channel)
  have eq: "conv_new_space (self\<lparr>data_format := channels_first\<rparr>) sp 0 [] =
      conv_new_space (self\<lparr>data_format := channels_last\<rparr>) sp 0 []"
    by (rule conv_new_space_cong) simp_all
  show ?thesis
    by (cases "conv_new_space (self\<lparr>data_format := channels_last\<rparr>) sp 0 []")
      (simp_all add: Conv_compute_output_shape_def s eq getitem_def)
qed

lemma depthwise_layout_symmetry:
  assumes "length s = 4"
  shows "DepthwiseConv2D_compute_output_shape (self\<lparr>data_format := channels_first\<rparr>)
           (channels_last_to_first s) =
         map_sum id channels_last_to_first
           (DepthwiseConv2D_compute_output_shape (self\<lparr>data_format := channels_last\<rparr>) s)"
proof -
  from assms obtain b h w c where s: "s = [b, h, w, c]"
    by (auto simp: length_Suc_conv numeral_eq_Suc)
  have eq: "conv_new_space (self\<lparr>data_format := channels_first\<rparr>) [h, w] 0 [] =
      conv_new_space (self\<lparr>data_format := channels_last\<rparr>) [h, w] 0 []"
    by (rule conv_new_space_cong) simp_all
  show ?thesis
  proof (cases "mul_dim c (depth_multiplier self)")
    case (Inl e)
    then show ?thesis
      by (simp add: DepthwiseConv2D_compute_output_shape_def s getitem_def)
  next
    case (Inr out_filters)
    show ?thesis
    proof (cases "conv_new_space (self\<lparr>data_format := channels_last\<rparr>) [h, w] 0 []")
      case (Inl e)
      then show ?thesis
        using Inr by (simp add: DepthwiseConv2D_compute_output_shape_def s eq getitem_def)
    next
      case new_space: (Inr r)
      then have "length r = 2"
        using conv_new_space_length by fastforce
      then obtain h' w' where r: "r = [h', w']"
        by (auto simp: length_Suc_conv numeral_eq_Suc)
      show ?thesis
        using Inr new_space
        by (simp add: DepthwiseConv2D_compute_output_shape_def s eq getitem_def r)
    qed
  qed
qed

lemma deconv_axis_explicit:
  "deconv_axis p sh ax st k op dl =
     (if ax < length sh then
        (case deconv_length (sh ! ax) st k p op dl of
           Inl e \<Rightarrow> Inl e | Inr d \<Rightarrow> Inr (sh[ax := d]))
      else Inl IndexError)"
  by (simp add: deconv_axis_def getitem_nat setitem_def split: sum.splits)

lemma conv2d_transpose_layout_symmetry:
  assumes "length s = 4"
  shows "Conv2DTranspose_compute_output_shape (self\<lparr>data_format := channels_first\<rparr>)
           (channels_last_to_first s) =
         map_sum id channels_last_to_first
           (Conv2DTranspose_compute_output_shape (self\<lparr>data_format := channels_last\<rparr>) s)"
proof -
  from assms obtain b h w c where s: "s = [b, h, w, c]"
    by (auto simp: length_Suc_conv numeral_eq_Suc)
  show ?thesis
    unfolding s Conv2DTranspose_compute_output_shape_def
    by (auto simp: deconv_axis_explicit setitem_def and_then_def Let_def getitem_def
        numeral_eq_Suc split: sum.splits option.splits prod.splits)
qed

lemma conv3d_transpose_layout_symmetry:
  assumes "length s = 5"
  shows "Conv3DTranspose_compute_output_shape (self\<lparr>data_format := channels_first\<rparr>)
           (channels_last_to_first s) =
         map_sum id channels_last_to_first
           (Conv3DTranspose_compute_output_shape (self\<lparr>data_format := channels_last\<rparr>) s)"
proof -
  from assms obtain b d h w c where s: "s = [b, d, h, w, c]"
    by (auto simp: length_Suc_conv numeral_eq_Suc)
  show ?thesis
    unfolding s Conv3DTranspose_compute_output_shape_def
    by (auto simp: deconv_axis_explicit setitem_def and_then_def Let_def getitem_def
        numeral_eq_Suc split: sum.splits option.splits prod.splits)
qed

lemma upsampling_layout_symmetry:
  assumes "rank self = length (size_up self)" "length s = rank self + 2" "0 < rank self"
  shows "UpSampling_compute_output_shape (self\<lparr>data_format := channels_first\<rparr>)
           (channels_last_to_first s) =
         map_sum id channels_last_to_first
           (UpSampling_compute_output_shape (self\<lparr>data_format := channels_last\<rparr>) s)"
proof -
  from assms obtain b sp c where s: "s = b # sp @ [c]"
    using batch_spatial_channel [of s] by auto
  with assms have sp: "length sp = length (size_up self)" "sp \<noteq> []" by auto
  show ?thesis
    using upsampling_shape [of "self\<lparr>data_format := channels_first\<rparr>" sp b c]
      upsampling_shape [of "self\<lparr>data_format := channels_last\<rparr>" sp b c] assms(1) sp
    by (simp add: s)
qed

lemma zero_padding_layout_symmetry:
  assumes "rank self = length (zero_padding self)" "length s = rank self + 2" "0 < rank self"
  shows "ZeroPadding_compute_output_shape (self\<lparr>data_format := channels_first\<rparr>)
           (channels_last_to_first s) =
         map_sum id channels_last_to_first
           (ZeroPadding_compute_output_shape (self\<lparr>data_format := channels_last\<rparr>) s)"
proof -
  from assms obtain b sp c where s: "s = b # sp @ [c]"
    using batch_spatial_channel [of s] by auto
  with assms have sp: "length sp = length (zero_padding self)" "sp \<noteq> []" by auto
  show ?thesis
    using zero_padding_shape [of "self\<lparr>data_format := channels_first\<rparr>" sp b c]
      zero_padding_shape [of "self\<lparr>data_format := channels_last\<rparr>" sp b c] assms(1) sp
    by (simp add: s)
qed

lemma cropping_layout_symmetry:
  assumes "rank self = length (cropping self)" "length s = rank self + 2" "0 < rank self"
  shows "Cropping_compute_output_shape (self\<lparr>data_format := channels_first\<rparr>)
           (channels_last_to_first s) =
         map_sum id channels_last_to_first
           (Cropping_compute_output_shape (self\<lparr>data_format := channels_last\<rparr>) s)"
proof -
  from assms obtain b sp c where s: "s = b # sp @ [c]"
    using batch_spatial_channel [of s] by auto
  with assms have sp: "length sp = length (cropping self)" "sp \<noteq> []" by auto
  show ?thesis
    using cropping_shape [of "self\<lparr>data_format := channels_first\<rparr>" sp b c]
      cropping_shape [of "self\<lparr>data_format := channels_last\<rparr>" sp b c] assms(1) sp
    by (simp add: s)
qed

text \<open>
  C5. For every layer object and every input shape \<open>s\<close> of the rank the layer takes
  (at least 2 entries for \<open>_Conv\<close>, 4 for \<open>Conv2DTranspose\<close> and \<open>DepthwiseConv2D\<close>,
  5 for \<open>Conv3DTranspose\<close>, rank + 2 for the upsampling, zero-padding and cropping
  layers), \<open>compute_output_shape\<close> under channels-first on the permuted input is the
  permutation of \<open>compute_output_shape\<close> under channels-last on \<open>s\<close>: the same batch,
  spatial and channel values at the permuted positions, or the same error. This holds
  whether or not the entries of \<open>s\<close> are known.
\<close>

theorem layout_symmetry:
  fixes conv :: "'a conv_layer_scheme" and t :: "'b conv_transpose_layer_scheme"
    and dw :: "'c depth_conv_layer_scheme" and up :: "'d upsampling_layer_scheme"
    and zp :: "'e zero_padding_layer_scheme" and cr :: "'f cropping_layer_scheme"
  shows
  "(2 \<le> length s
      \<longrightarrow> Conv_compute_output_shape (conv\<lparr>data_format := channels_first\<rparr>)
            (channels_last_to_first s) =
          map_sum id channels_last_to_first
            (Conv_compute_output_shape (conv\<lparr>data_format := channels_last\<rparr>) s))
   \<and> (length s = 4
      \<longrightarrow> Conv2DTranspose_compute_output_shape (t\<lparr>data_format := channels_first\<rparr>)
            (channels_last_to_first s) =
          map_sum id channels_last_to_first
            (Conv2DTranspose_compute_output_shape (t\<lparr>data_format := channels_last\<rparr>) s))
   \<and> (length s = 5
      \<longrightarrow> Conv3DTranspose_compute_output_shape (t\<lparr>data_format := channels_first\<rparr>)
            (channels_last_to_first s) =
          map_sum id channels_last_to_first
            (Conv3DTranspose_compute_output_shape (t\<lparr>data_format := channels_last\<rparr>) s))
   \<and> (length s = 4
      \<longrightarrow> DepthwiseConv2D_compute_output_shape (dw\<lparr>data_format := channels_first\<rparr>)
            (channels_last_to_first s) =
          map_sum id channels_last_to_first
            (DepthwiseConv2D_compute_output_shape (dw\<lparr>data_format := channels_last\<rparr>) s))
   \<and> (rank up = length (size_up up) \<and> length s = rank up + 2 \<and> 0 < rank up
      \<longrightarrow> UpSampling_compute_output_shape (up\<lparr>data_format := channels_first\<rparr>)
            (channels_last_to_first s) =
          map_sum id channels_last_to_first
            (UpSampling_compute_output_shape (up\<lparr>data_format := channels_last\<rparr>) s))
   \<and> (rank zp = length (zero_padding zp) \<and> length s = rank zp + 2 \<and> 0 < rank zp
      \<longrightarrow> ZeroPadding_compute_output_shape (zp\<lparr>data_format := channels_first\<rparr>)
            (channels_last_to_first s) =
          map_sum id channels_last_to_first
            (ZeroPadding_compute_output_shape (zp\<lparr>data_format := channels_last\<rparr>) s))
   \<and> (rank cr = length (cropping cr) \<and> length s = rank cr + 2 \<and> 0 < rank cr
      \<longrightarrow> Cropping_compute_output_shape (cr\<lparr>data_format := channels_first\<rparr>)
            (channels_last_to_first s) =
          map_sum id channels_last_to_first
            (Cropping_compute_output_shape (cr\<lparr>data_format := channels_last\<rparr>) s))"
  using conv_layout_symmetry [of s conv] conv2d_transpose_layout_symmetry [of s t]
    conv3d_transpose_layout_symmetry [of s t] depthwise_layout_symmetry [of s dw]
    upsampling_layout_symmetry [of up s] zero_padding_layout_symmetry [of zp s]
    cropping_layout_symmetry [of cr s]
  by blast

theorem layout_symmetry_witness:
  "Conv_compute_output_shape (conv2d_literal\<lparr>data_format := channels_first\<rparr>)
       [None, Some 3, Some 10, None] = Inr [None, Some 16, Some 8, None]
   \<and> Conv2DTranspose_compute_output_shape
       (conv2d_transpose_literal\<lparr>data_format := channels_first\<rparr>)
       [None, Some 3, Some 10, None] = Inr [None, Some 16, Some 20, None]
   \<and> Conv3DTranspose_compute_output_shape
       (conv3d_transpose_literal\<lparr>data_format := channels_first\<rparr>)
       [None, Some 2, Some 9, None, Some 7] = Inr [None, Some 4, Some 20, None, Some 16]
   \<and> DepthwiseConv2D_compute_output_shape (depthwise_literal\<lparr>data_format := channels_first\<rparr>)
       [None, Some 3, Some 10, None] = Inr [None, Some 12, Some 8, None]
   \<and> UpSampling_compute_output_shape (upsampling_literal\<lparr>data_format := channels_first\<rparr>)
       [None, Some 3, Some 10, None] = Inr [None, Some 3, Some 20, None]
   \<and> ZeroPadding_compute_output_shape (zero_padding_literal\<lparr>data_format := channels_first\<rparr>)
       [None, Some 3, Some 10, None] = Inr [None, Some 3, Some 13, None]
   \<and> Cropping_compute_output_shape (cropping_literal\<lparr>data_format := channels_first\<rparr>)
       [None, Some 2, Some 9, None, Some 7] = Inr [None, Some 2, Some 7, None, Some 4]"
proof -
  have last4:
    "Conv_compute_output_shape (conv2d_literal\<lparr>data_format := channels_last\<rparr>)
       [None, Some 10, None, Some 3] = Inr [None, Some 8, None, Some 16]"
    "Conv2DTranspose_compute_output_shape
       (conv2d_transpose_literal\<lparr>data_format := channels_last\<rparr>)
       [None, Some 10, None, Some 3] = Inr [None, Some 20, None, Some 16]"
    "DepthwiseConv2D_compute_output_shape (depthwise_literal\<lparr>data_format := channels_last\<rparr>)
       [None, Some 10, None, Some 3] = Inr [None, Some 8, None, Some 12]"
    "UpSampling_compute_output_shape (upsampling_literal\<lparr>data_format := channels_last\<rparr>)
       [None, Some 10, None, Some 3] = Inr [None, Some 20, None, Some 3]"
    "ZeroPadding_compute_output_shape (zero_padding_literal\<lparr>data_format := channels_last\<rparr>)
       [None, Some 10, None, Some 3] = Inr [None, Some 13, None, Some 3]"
    by (simp_all add: Conv_compute_output_shape_def Conv2DTranspose_compute_output_shape_def
        DepthwiseConv2D_compute_output_shape_def UpSampling_compute_output_shape_def
        ZeroPadding_compute_output_shape_def conv2d_literal_def conv2d_transpose_literal_def
        depthwise_literal_def upsampling_literal_def zero_padding_literal_def
        conv_new_space.simps for_dim_in_range.simps getitem_def setitem_def
        conv_output_length_def deconv_length_def deconv_axis_def mul_dim_def
        transpose_shape_def)
  have last5:
    "Conv3DTranspose_compute_output_shape
       (conv3d_transpose_literal\<lparr>data_format := channels_last\<rparr>)
       [None, Some 9, None, Some 7, Some 2] = Inr [None, Some 20, None, Some 16, Some 4]"
    "Cropping_compute_output_shape (cropping_literal\<lparr>data_format := channels_last\<rparr>)
       [None, Some 9, None, Some 7, Some 2] = Inr [None, Some 7, None, Some 4, Some 2]"
    by (simp_all add: Conv3DTranspose_compute_output_shape_def
        Cropping_compute_output_shape_def conv3d_transpose_literal_def cropping_literal_def
        for_dim_in_range.simps getitem_def setitem_def deconv_length_def deconv_axis_def
        transpose_shape_def)
  show ?thesis
    using
      layout_symmetry [where s = "[None, Some 10, None, Some 3]" and conv = conv2d_literal
        and t = conv2d_transpose_literal and dw = depthwise_literal
        and up = upsampling_literal and zp = zero_padding_literal and cr = cropping_literal]
      layout_symmetry [where s = "[None, Some 9, None, Some 7, Some 2]"
        and conv = conv2d_literal and t = conv3d_transpose_literal and dw = depthwise_literal
        and up = upsampling_literal and zp = zero_padding_literal and cr = cropping_literal]
    unfolding last4 last5
    by (simp add: upsampling_literal_def zero_padding_literal_def cropping_literal_def)
qed

subsection \<open>Products that fit 64 bits\<close>

lemma np_prod_in_range:
  "list_all int64 xs \<Longrightarrow> int64 (prod_list xs) \<Longrightarrow> np_prod xs = Some (prod_list xs)"
  by (simp add: np_prod_def int64_def sint_sbintrunc' signed_take_bit_int_eq_self)

lemma abs_le_abs_prod_list:
  fixes xs :: "int list"
  assumes "x \<in> set xs" "0 \<notin> set xs"
  shows "\<bar>x\<bar> \<le> \<bar>prod_list xs\<bar>"
  using assms
proof (induction xs)
  case Nil
  then show ?case by simp
next
  case (Cons a xs)
  have a: "1 \<le> \<bar>a\<bar>" using Cons.prems(2) by auto
  have "prod_list xs \<noteq> 0" using Cons.prems(2) by (simp add: prod_list_zero_iff)
  then have p: "1 \<le> \<bar>prod_list xs\<bar>" by simp
  show ?case
  proof (cases "x = a")
    case True
    have "\<bar>a\<bar> * 1 \<le> \<bar>a\<bar> * \<bar>prod_list xs\<bar>"
      using p by (intro mult_left_mono) simp_all
    then show ?thesis using True by (simp add: abs_mult)
  next
    case False
    then have "\<bar>x\<bar> \<le> \<bar>prod_list xs\<bar>" using Cons by simp
    also have "1 * \<bar>prod_list xs\<bar> \<le> \<bar>a\<bar> * \<bar>prod_list xs\<bar>"
      using a by (intro mult_right_mono) simp_all
    finally show ?thesis by (simp add: abs_mult)
  qed
qed

lemma nonzero_entries_fit:
  fixes xs :: "int list"
  assumes "0 \<notin> set xs" "\<bar>prod_list xs\<bar> < 2 ^ 63"
  shows "list_all int64 xs" "int64 (prod_list xs)"
proof -
  have "int64 x" if "x \<in> set xs" for x
    using abs_le_abs_prod_list [OF that assms(1)] assms(2) by (simp add: int64_def) linarith
  then show "list_all int64 xs" by (simp add: list_all_iff)
  show "int64 (prod_list xs)" using assms(2) by (simp add: int64_def) linarith
qed

subsection \<open>\<open>Reshape\<close>\<close>

lemma find_unknown_enumerate:
  "find_unknown (enumerate i xs) k u =
     (if (case u of None \<Rightarrow> 0 | Some _ \<Rightarrow> 1) + length (filter (\<lambda>d. d < 0) xs) > (1::nat)
      then Inl (ValueError Only_one_unknown_dimension)
      else Inr (k * prod_list (filter (\<lambda>d. \<not> d < 0) xs),
                case u of
                  Some v \<Rightarrow> Some v
                | None \<Rightarrow> if \<exists>d \<in> set xs. d < 0
                          then Some (i + length (takeWhile (\<lambda>d. \<not> d < 0) xs)) else None))"
proof (induction xs arbitrary: i k u)
  case Nil
  then show ?case by (simp split: option.splits)
next
  case (Cons x xs)
  show ?case
  proof (cases "x < 0")
    case True
    then show ?thesis
      by (cases u) (simp_all add: Cons.IH filter_empty_conv)
  next
    case False
    then show ?thesis
      by (cases u) (simp_all add: Cons.IH mult.assoc)
  qed
qed

lemma one_negative_split:
  fixes xs :: "int list"
  assumes "length (filter (\<lambda>d. d < 0) xs) = 1"
  obtains pre x post where "xs = pre @ x # post" "x < (0::int)"
    "\<forall>d \<in> set pre. \<not> d < 0" "\<forall>d \<in> set post. \<not> d < 0"
proof -
  from assms have "\<exists>d \<in> set xs. d < 0"
    by (metis filter_False length_0_conv zero_neq_one)
  then obtain pre x post where s: "xs = pre @ x # post" "x < 0" "\<forall>d \<in> set pre. \<not> d < 0"
    by (rule split_list_first_propE)
  with assms have "filter (\<lambda>d. d < 0) post = []"
    by (simp add: filter_empty_conv)
  then have "\<forall>d \<in> set post. \<not> d < 0"
    by (simp add: filter_empty_conv)
  with s that show thesis by blast
qed

lemma one_negative_facts:
  fixes xs :: "int list"
  assumes "length (filter (\<lambda>d. d < 0) xs) = 1"
  shows "xs[length (takeWhile (\<lambda>d. \<not> d < 0) xs) := q] = map (\<lambda>d. if d < 0 then q else d) xs"
    and "prod_list (map (\<lambda>d. if d < 0 then q else d) xs) =
           q * prod_list (filter (\<lambda>d. \<not> d < 0) xs)"
    and "\<exists>d \<in> set xs. d < 0"
proof -
  from assms obtain pre x post where s: "xs = pre @ x # post" "x < 0"
    "\<forall>d \<in> set pre. \<not> d < 0" "\<forall>d \<in> set post. \<not> d < 0"
    by (rule one_negative_split)
  have tw: "takeWhile (\<lambda>d. \<not> d < 0) xs = pre"
    using s by (simp add: takeWhile_tail)
  have m1: "map (\<lambda>d. if d < 0 then q else d) pre = pre"
    using s(3) by (simp add: map_idI)
  have m2: "map (\<lambda>d. if d < 0 then q else d) post = post"
    using s(4) by (simp add: map_idI)
  have f1: "filter (\<lambda>d. \<not> d < 0) pre = pre" using s(3) by simp
  have f2: "filter (\<lambda>d. \<not> d < 0) post = post" using s(4) by simp
  show "xs[length (takeWhile (\<lambda>d. \<not> d < 0) xs) := q] = map (\<lambda>d. if d < 0 then q else d) xs"
    unfolding tw by (simp add: s(1,2) m1 m2)
  show "prod_list (map (\<lambda>d. if d < 0 then q else d) xs) =
           q * prod_list (filter (\<lambda>d. \<not> d < 0) xs)"
    by (simp add: s(1,2) m1 m2 f1 f2)
  show "\<exists>d \<in> set xs. d < 0" using s(1,2) by auto
qed

lemma no_negative_facts:
  fixes xs :: "int list"
  assumes "length (filter (\<lambda>d. d < 0) xs) = 0"
  shows "filter (\<lambda>d. \<not> d < (0::int)) xs = xs" "\<not> (\<exists>d \<in> set xs. d < 0)"
  using assms by (simp_all add: filter_empty_conv)

lemma fix_unknown_dimension_many:
  "1 < length (filter (\<lambda>d. d < 0) target) \<Longrightarrow>
   fix_unknown_dimension inp target = Some (Inl (ValueError Only_one_unknown_dimension))"
  by (simp add: fix_unknown_dimension_def find_unknown_enumerate)

lemma fix_unknown_dimension_eq:
  assumes "np_prod inp = Some original"
    and "int64 (prod_list (filter (\<lambda>d. \<not> d < 0) target))"
  shows "fix_unknown_dimension inp target =
     Some (if length (filter (\<lambda>d. d < 0) target) > 1
      then Inl (ValueError Only_one_unknown_dimension)
      else if length (filter (\<lambda>d. d < 0) target) = 1
      then (if prod_list (filter (\<lambda>d. \<not> d < 0) target) = 0
               \<or> original mod prod_list (filter (\<lambda>d. \<not> d < 0) target) \<noteq> 0
            then Inl (ValueError Total_size_must_be_unchanged)
            else Inr (map (\<lambda>d. if d < 0
                                then original div prod_list (filter (\<lambda>d. \<not> d < 0) target)
                                else d) target))
      else if original \<noteq> prod_list target
      then Inl (ValueError Total_size_must_be_unchanged)
      else Inr target)"
proof -
  consider (many) "length (filter (\<lambda>d. d < 0) target) > 1"
    | (one) "length (filter (\<lambda>d. d < 0) target) = 1"
    | (none) "length (filter (\<lambda>d. d < 0) target) = 0"
    by linarith
  then show ?thesis
  proof cases
    case many
    then show ?thesis
      by (simp add: fix_unknown_dimension_many)
  next
    case one
    then show ?thesis
      using one_negative_facts(1,3) [OF one] assms
      by (simp add: fix_unknown_dimension_def find_unknown_enumerate)
  next
    case none
    then show ?thesis
      using no_negative_facts [OF none] assms
      by (simp add: fix_unknown_dimension_def find_unknown_enumerate)
  qed
qed

lemma fix_unknown_dimension_prod:
  assumes "np_prod inp = Some original"
    and "fix_unknown_dimension inp target = Some (Inr fixed)"
  shows "prod_list fixed = original" "length fixed = length target"
proof -
  have known: "int64 (prod_list (filter (\<lambda>d. \<not> d < 0) target))"
    using assms
    by (auto simp: fix_unknown_dimension_def find_unknown_enumerate split: if_splits)
  note eq = fix_unknown_dimension_eq [OF assms(1) known]
  have "\<not> length (filter (\<lambda>d. d < 0) target) > 1"
    using assms(2) by (auto simp: eq)
  then consider (one) "length (filter (\<lambda>d. d < 0) target) = 1"
    | (none) "length (filter (\<lambda>d. d < 0) target) = 0"
    by linarith
  then have "prod_list fixed = original \<and> length fixed = length target"
  proof cases
    case one
    with assms(2) show ?thesis
      by (auto simp: eq one_negative_facts(2) [OF one] split: if_splits)
  next
    case none
    with assms(2) show ?thesis
      by (auto simp: eq split: if_splits)
  qed
  then show "prod_list fixed = original" "length fixed = length target" by simp_all
qed

lemma reshape_known_input:
  assumes "None \<notin> set dims"
  shows "Reshape_compute_output_shape target (batch # dims) =
     (case fix_unknown_dimension (map the dims) target of
        None \<Rightarrow> None
      | Some r \<Rightarrow> Some (and_then r (\<lambda>fixed. Inr (batch # map Some fixed))))"
  using assms
  by (simp add: Reshape_compute_output_shape_def getitem_def split: option.splits)

text \<open>
  C9, as stated, fails in two ways. On target shapes with negative entries other than
  \<open>-1\<close>: the target (-2, 3) on the input (None, 6) has no \<open>-1\<close> to replace, and the
  shape returned is (None, 2, 3), not the target; the target (-2, -3) holds no \<open>-1\<close>
  and its product is the input's element count, 6, and the layer raises. On inputs whose
  element count does not fit 64 bits: the target (-1,) on the input (None, 2^32, 2^32)
  gives (None, 0), while the element count is 2^64.
\<close>

theorem reshape_output_shape_counterexample:
  "Reshape_compute_output_shape [- 2, 3] [None, Some 6] = Some (Inr [None, Some 2, Some 3])
   \<and> count_list [- 2, 3] (- 1 :: int) = 0
   \<and> Reshape_compute_output_shape [- 2, - 3] [None, Some 6] =
       Some (Inl (ValueError Only_one_unknown_dimension))
   \<and> count_list [- 2, - 3] (- 1 :: int) = 0
   \<and> prod_list [- 2, - 3] = prod_list [6 :: int]
   \<and> Reshape_compute_output_shape [- 1] [None, Some 4294967296, Some 4294967296] =
       Some (Inr [None, Some 0])
   \<and> prod_list [4294967296, 4294967296 :: int] = 18446744073709551616"
proof -
  have a: "np_prod [6] = Some 6"
    by (simp add: np_prod_def int64_def)
  have b: "np_prod [4294967296, 4294967296] = Some 0"
    by (simp add: np_prod_def int64_def)
  show ?thesis
    by (simp add: reshape_known_input fix_unknown_dimension_many
        fix_unknown_dimension_eq [OF a] fix_unknown_dimension_eq [OF b] int64_def)
qed

text \<open>
  C9, amended. Take an input shape whose non-batch dimensions are all known and fit a
  signed 64-bit integer, as do their product (the input's element count) and the product
  of the non-negative target entries. Then \<open>Reshape.compute_output_shape\<close> raises
  exactly when the target shape has more than one negative entry, or one negative entry
  while the product of the other entries is 0 or does not divide the element count, or
  no negative entry while the product of the target differs from the element count.
  Otherwise it returns the batch entry followed by the target shape, its negative entry
  (whatever its value) replaced by the quotient of the element count by the product of
  the other entries; the product of the returned non-batch dimensions is the product of
  the input's non-batch dimensions. A target with more than one negative entry raises
  whatever the sizes are.
\<close>

theorem reshape_output_shape:
  "(None \<notin> set dims \<and> list_all int64 (map the dims) \<and> int64 (prod_list (map the dims))
      \<and> int64 (prod_list (filter (\<lambda>d. \<not> d < 0) target))
      \<longrightarrow> Reshape_compute_output_shape target (batch # dims) =
          Some (if 1 < length (filter (\<lambda>d. d < 0) target)
                then Inl (ValueError Only_one_unknown_dimension)
                else if length (filter (\<lambda>d. d < 0) target) = 1
                then (if prod_list (filter (\<lambda>d. \<not> d < 0) target) = 0
                         \<or> prod_list (map the dims) mod
                             prod_list (filter (\<lambda>d. \<not> d < 0) target) \<noteq> 0
                      then Inl (ValueError Total_size_must_be_unchanged)
                      else Inr (batch #
                             map Some
                               (map (\<lambda>d. if d < 0
                                          then prod_list (map the dims) div
                                               prod_list (filter (\<lambda>d. \<not> d < 0) target)
                                          else d) target)))
                else if prod_list (map the dims) \<noteq> prod_list target
                then Inl (ValueError Total_size_must_be_unchanged)
                else Inr (batch # map Some target))
        \<and> (\<forall>out. Reshape_compute_output_shape target (batch # dims) = Some (Inr out)
              \<longrightarrow> (\<exists>fixed. out = batch # map Some fixed \<and> length fixed = length target
                    \<and> prod_list fixed = prod_list (map the dims))))
   \<and> (None \<notin> set dims \<and> 1 < length (filter (\<lambda>d. d < 0) target)
      \<longrightarrow> Reshape_compute_output_shape target (batch # dims) =
            Some (Inl (ValueError Only_one_unknown_dimension)))"
proof -
  have formula: "Reshape_compute_output_shape target (batch # dims) =
          Some (if 1 < length (filter (\<lambda>d. d < 0) target)
                then Inl (ValueError Only_one_unknown_dimension)
                else if length (filter (\<lambda>d. d < 0) target) = 1
                then (if prod_list (filter (\<lambda>d. \<not> d < 0) target) = 0
                         \<or> prod_list (map the dims) mod
                             prod_list (filter (\<lambda>d. \<not> d < 0) target) \<noteq> 0
                      then Inl (ValueError Total_size_must_be_unchanged)
                      else Inr (batch #
                             map Some
                               (map (\<lambda>d. if d < 0
                                          then prod_list (map the dims) div
                                               prod_list (filter (\<lambda>d. \<not> d < 0) target)
                                          else d) target)))
                else if prod_list (map the dims) \<noteq> prod_list target
                then Inl (ValueError Total_size_must_be_unchanged)
                else Inr (batch # map Some target))"
    if "None \<notin> set dims" "list_all int64 (map the dims)" "int64 (prod_list (map the dims))"
      "int64 (prod_list (filter (\<lambda>d. \<not> d < 0) target))"
    using that
    by (simp add: reshape_known_input
        fix_unknown_dimension_eq [OF np_prod_in_range [OF that(2,3)] that(4)])
  have product: "\<exists>fixed. out = batch # map Some fixed \<and> length fixed = length target
                    \<and> prod_list fixed = prod_list (map the dims)"
    if "None \<notin> set dims" "list_all int64 (map the dims)" "int64 (prod_list (map the dims))"
      "Reshape_compute_output_shape target (batch # dims) = Some (Inr out)" for out
  proof -
    from that(1,4) obtain r where r: "fix_unknown_dimension (map the dims) target = Some r"
      and o: "and_then r (\<lambda>fixed. Inr (batch # map Some fixed)) = Inr out"
      by (auto simp: reshape_known_input split: option.splits)
    from o obtain fixed where f: "r = Inr fixed" "out = batch # map Some fixed"
      by (auto simp: and_then_Inr_iff)
    show ?thesis
      using fix_unknown_dimension_prod [OF np_prod_in_range [OF that(2,3)]] r f by auto
  qed
  have many: "Reshape_compute_output_shape target (batch # dims) =
            Some (Inl (ValueError Only_one_unknown_dimension))"
    if "None \<notin> set dims" "1 < length (filter (\<lambda>d. d < 0) target)"
    using that by (simp add: reshape_known_input fix_unknown_dimension_many)
  show ?thesis
    using formula product many by blast
qed

theorem reshape_output_shape_witness:
  "Reshape_compute_output_shape [- 1, 2, 2] [None, Some 12] =
     Some (Inr [None, Some 3, Some 2, Some 2])
   \<and> Reshape_compute_output_shape [3, 4] [None, Some 6, Some 2] =
     Some (Inr [None, Some 3, Some 4])
   \<and> Reshape_compute_output_shape [- 1, 5] [None, Some 12] =
       Some (Inl (ValueError Total_size_must_be_unchanged))
   \<and> Reshape_compute_output_shape [- 1, 0] [None, Some 0] =
       Some (Inl (ValueError Total_size_must_be_unchanged))
   \<and> Reshape_compute_output_shape [- 1, - 1] [None, Some 12] =
       Some (Inl (ValueError Only_one_unknown_dimension))"
  using
    reshape_output_shape [where dims = "[Some 12]" and target = "[- 1, 2, 2]" and batch = None]
    reshape_output_shape [where dims = "[Some 6, Some 2]" and target = "[3, 4]"
      and batch = None]
    reshape_output_shape [where dims = "[Some 12]" and target = "[- 1, 5]" and batch = None]
    reshape_output_shape [where dims = "[Some 0]" and target = "[- 1, 0]" and batch = None]
    reshape_output_shape [where dims = "[Some 12]" and target = "[- 1, - 1]" and batch = None]
  by (simp add: int64_def)

subsection \<open>\<open>Flatten\<close>\<close>

lemma truthy_iff: "truthy d \<longleftrightarrow> d \<noteq> None \<and> d \<noteq> Some 0"
  by (cases d) (simp_all add: truthy_def)

lemma flatten_raises:
  "\<exists>d \<in> set dims. d = None \<or> d = Some 0 \<Longrightarrow>
   Flatten_compute_output_shape (batch # dims) = Some (Inl (ValueError Input_not_fully_defined))"
  by (auto simp: Flatten_compute_output_shape_def list_all_iff truthy_iff)

lemma flatten_defined:
  assumes "\<forall>d \<in> set dims. d \<noteq> None \<and> d \<noteq> Some 0"
  shows "Flatten_compute_output_shape (batch # dims) =
     (case np_prod (map the dims) of None \<Rightarrow> None | Some p \<Rightarrow> Some (Inr [batch, Some p]))"
  using assms
  by (auto simp: Flatten_compute_output_shape_def list_all_iff truthy_iff getitem_def)

lemma flatten_returns_product:
  assumes "\<forall>d \<in> set dims. d \<noteq> None \<and> d \<noteq> Some 0"
    and "\<bar>prod_list (map the dims)\<bar> < 2 ^ 63"
  shows "Flatten_compute_output_shape (batch # dims) =
     Some (Inr [batch, Some (prod_list (map the dims))])"
proof -
  have "0 \<notin> set (map the dims)"
    using assms(1) by force
  then have "np_prod (map the dims) = Some (prod_list (map the dims))"
    using nonzero_entries_fit [OF _ assms(2)] by (intro np_prod_in_range)
  then show ?thesis
    by (simp add: flatten_defined [OF assms(1)])
qed

lemma flatten_returned:
  assumes "Flatten_compute_output_shape (batch # dims) = Some (Inr out)"
  shows "None \<notin> set dims \<and> (\<exists>n. out = [batch, Some n])"
proof -
  have ok: "\<forall>d \<in> set dims. d \<noteq> None \<and> d \<noteq> Some 0"
    using assms flatten_raises [of dims batch] by fastforce
  then show ?thesis
    using assms by (auto simp: flatten_defined [OF ok] split: option.splits)
qed

text \<open>
  C10, as stated, fails where the product does not fit 64 bits: for the input
  (None, 2^31, 2^32), whose non-batch dimensions are known and not zero, the shape
  returned is (None, -2^63), and the product of the non-batch dimensions is 2^63.
\<close>

theorem flatten_overflow_counterexample:
  "Flatten_compute_output_shape [None, Some 2147483648, Some 4294967296] =
     Some (Inr [None, Some (- 9223372036854775808)])
   \<and> prod_list [2147483648, 4294967296 :: int] = 9223372036854775808"
  by (simp add: Flatten_compute_output_shape_def truthy_def getitem_def np_prod_def int64_def)

text \<open>
  C10, amended. On an input shape with batch entry \<open>batch\<close> and non-batch entries
  \<open>dims\<close>, \<open>Flatten.compute_output_shape\<close> raises whenever an entry of \<open>dims\<close> is
  \<open>None\<close> or 0. Otherwise, when the product of \<open>dims\<close> is below 2^63 in absolute
  value, it returns \<open>(batch, product of dims)\<close>. A shape it returns never comes from an
  input with an unknown non-batch entry, and its second entry is never \<open>None\<close>.
\<close>

theorem flatten_output_shape:
  "((\<exists>d \<in> set dims. d = None \<or> d = Some 0)
      \<longrightarrow> Flatten_compute_output_shape (batch # dims) =
            Some (Inl (ValueError Input_not_fully_defined)))
   \<and> ((\<forall>d \<in> set dims. d \<noteq> None \<and> d \<noteq> Some 0) \<and> \<bar>prod_list (map the dims)\<bar> < 2 ^ 63
      \<longrightarrow> Flatten_compute_output_shape (batch # dims) =
            Some (Inr [batch, Some (prod_list (map the dims))]))
   \<and> (\<forall>out. Flatten_compute_output_shape (batch # dims) = Some (Inr out)
         \<longrightarrow> None \<notin> set dims \<and> (\<exists>n. out = [batch, Some n]))"
  using flatten_raises [of dims batch] flatten_returns_product [of dims batch]
    flatten_returned [of batch dims]
  by blast

theorem flatten_output_shape_witness:
  "Flatten_compute_output_shape [None, Some 64, Some 32, Some 32] =
     Some (Inr [None, Some 65536])
   \<and> Flatten_compute_output_shape [None, Some 4, None] =
       Some (Inl (ValueError Input_not_fully_defined))
   \<and> Flatten_compute_output_shape [None, Some 4, Some 0] =
       Some (Inl (ValueError Input_not_fully_defined))"
  using
    flatten_output_shape [where dims = "[Some 64, Some 32, Some 32]" and batch = None]
    flatten_output_shape [where dims = "[Some 4, None]" and batch = None]
    flatten_output_shape [where dims = "[Some 4, Some 0]" and batch = None]
  by simp

end
